theory Spec2Isabelle
  imports Complex_Main
begin

section \<open>Text\<close>

text \<open>
  Python text is modelled by its UTF-8 bytes, as an Isabelle string. \<open>chars\<close> groups the
  bytes into characters (a lead byte with its continuation bytes), so that white space and
  slices by character count are those of Python: \<^verbatim>\<open>\s\<close> and \<^verbatim>\<open>str.strip\<close> take the 29
  characters for which \<^verbatim>\<open>str.isspace\<close> holds, and \<^verbatim>\<open>s[:n]\<close> takes \<open>n\<close> characters.
  \<^verbatim>\<open>str.lower\<close> is modelled on ASCII letters. Python lower-cases other letters as well, but
  only two characters beyond ASCII give an ASCII letter (the Kelvin sign gives k, the dotted
  capital I gives i followed by a combining dot), and no keyword the program searches for
  contains k or ends with i, so every keyword test has Python's result. The class \<^verbatim>\<open>\d\<close> is the
  decimal digits of Unicode (general category Nd, as of Unicode 14): \<open>code_point\<close> decodes a
  character and \<open>digit_blocks\<close> lists the first code point of each run of ten digits.
  The check mark that starts each satisfied item is written as its three UTF-8 bytes.
\<close>

text \<open>A continuation byte of UTF-8 has the two top bits 1 and 0.\<close>

definition is_continuation :: "char \<Rightarrow> bool" where
  "is_continuation c = (digit7 c \<and> \<not> digit6 c)"

fun chars :: "string \<Rightarrow> string list" where
  "chars [] = []"
| "chars (c # cs) =
     (case chars cs of
        [] \<Rightarrow> [[c]]
      | g # gs \<Rightarrow>
          (case g of
             [] \<Rightarrow> [c] # gs
           | b # bs \<Rightarrow> if is_continuation b then (c # g) # gs else [c] # g # gs))"

text \<open>The white-space characters: U+0009 to U+000D, U+001C to U+0020, U+0085, U+00A0,
  U+1680, U+2000 to U+200A, U+2028, U+2029, U+202F, U+205F and U+3000.\<close>

definition white_space :: "string list" where
  "white_space =
     [[CHR 0x09], [CHR 0x0A], [CHR 0x0B], [CHR 0x0C], [CHR 0x0D],
      [CHR 0x1C], [CHR 0x1D], [CHR 0x1E], [CHR 0x1F], [CHR 0x20],
      [CHR 0xC2, CHR 0x85], [CHR 0xC2, CHR 0xA0], [CHR 0xE1, CHR 0x9A, CHR 0x80],
      [CHR 0xE2, CHR 0x80, CHR 0x80], [CHR 0xE2, CHR 0x80, CHR 0x81],
      [CHR 0xE2, CHR 0x80, CHR 0x82], [CHR 0xE2, CHR 0x80, CHR 0x83],
      [CHR 0xE2, CHR 0x80, CHR 0x84], [CHR 0xE2, CHR 0x80, CHR 0x85],
      [CHR 0xE2, CHR 0x80, CHR 0x86], [CHR 0xE2, CHR 0x80, CHR 0x87],
      [CHR 0xE2, CHR 0x80, CHR 0x88], [CHR 0xE2, CHR 0x80, CHR 0x89],
      [CHR 0xE2, CHR 0x80, CHR 0x8A], [CHR 0xE2, CHR 0x80, CHR 0xA8],
      [CHR 0xE2, CHR 0x80, CHR 0xA9], [CHR 0xE2, CHR 0x80, CHR 0xAF],
      [CHR 0xE2, CHR 0x81, CHR 0x9F], [CHR 0xE3, CHR 0x80, CHR 0x80]]"

definition is_space :: "string \<Rightarrow> bool" where
  "is_space g = (g \<in> set white_space)"

text \<open>What is left of a text after the greedy \<^verbatim>\<open>\s*\<close>, \<^verbatim>\<open>s.strip()\<close>, and \<^verbatim>\<open>s[:n]\<close>.\<close>

definition skip_space :: "string \<Rightarrow> string" where
  "skip_space s = concat (dropWhile is_space (chars s))"

definition strip :: "string \<Rightarrow> string" where
  "strip s = concat (rev (dropWhile is_space (rev (dropWhile is_space (chars s)))))"

definition take_chars :: "nat \<Rightarrow> string \<Rightarrow> string" where
  "take_chars n s = concat (take n (chars s))"

text \<open>The code point of a character from its UTF-8 bytes; \<open>None\<close> for a group of bytes
  that does not start a character.\<close>

definition continuation :: "char \<Rightarrow> int" where
  "continuation c = of_char c mod 64"

definition code_point :: "string \<Rightarrow> int option" where
  "code_point g =
     (case g of
        [a] \<Rightarrow> if of_char a < (128 :: int) then Some (of_char a) else None
      | [a, b] \<Rightarrow>
          if (192 :: int) \<le> of_char a \<and> of_char a < (224 :: int)
          then Some (of_char a mod 32 * 64 + continuation b) else None
      | [a, b, c] \<Rightarrow>
          if (224 :: int) \<le> of_char a \<and> of_char a < (240 :: int)
          then Some ((of_char a mod 16 * 64 + continuation b) * 64 + continuation c) else None
      | [a, b, c, d] \<Rightarrow>
          if (240 :: int) \<le> of_char a \<and> of_char a < (248 :: int)
          then Some (((of_char a mod 8 * 64 + continuation b) * 64 + continuation c) * 64
                       + continuation d)
          else None
      | _ \<Rightarrow> None)"

definition digit_blocks :: "int list" where
  "digit_blocks =
     [0x30, 0x660, 0x6F0, 0x7C0, 0x966, 0x9E6, 0xA66, 0xAE6, 0xB66, 0xBE6, 0xC66, 0xCE6, 0xD66,
      0xDE6, 0xE50, 0xED0, 0xF20, 0x1040, 0x1090, 0x17E0, 0x1810, 0x1946, 0x19D0, 0x1A80,
      0x1A90, 0x1B50, 0x1BB0, 0x1C40, 0x1C50, 0xA620, 0xA8D0, 0xA900, 0xA9D0, 0xA9F0, 0xAA50,
      0xABF0, 0xFF10, 0x104A0, 0x10D30, 0x11066, 0x110F0, 0x11136, 0x111D0, 0x112F0, 0x11450,
      0x114D0, 0x11650, 0x116C0, 0x11730, 0x118E0, 0x11950, 0x11C50, 0x11D50, 0x11DA0, 0x16A60,
      0x16AC0, 0x16B50, 0x1D7CE, 0x1D7D8, 0x1D7E2, 0x1D7EC, 0x1D7F6, 0x1E140, 0x1E2F0, 0x1E950,
      0x1FBF0]"

definition is_digit :: "string \<Rightarrow> bool" where
  "is_digit g =
     (case code_point g of
        Some n \<Rightarrow> list_ex (\<lambda>first. first \<le> n \<and> n < first + 10) digit_blocks
      | None \<Rightarrow> False)"

definition lower_char :: "char \<Rightarrow> char" where
  "lower_char c =
     (case map_of (zip ''ABCDEFGHIJKLMNOPQRSTUVWXYZ'' ''abcdefghijklmnopqrstuvwxyz'') c of
        Some d \<Rightarrow> d | None \<Rightarrow> c)"

definition py_lower :: "string \<Rightarrow> string" where
  "py_lower s = map lower_char s"

definition nl :: string where
  "nl = [CHR 0x0A]"

text \<open>\<^verbatim>\<open>s.startswith(p)\<close> and \<^verbatim>\<open>p in s\<close>.\<close>

fun starts_with :: "string \<Rightarrow> string \<Rightarrow> bool" where
  "starts_with s [] = True"
| "starts_with [] (p # ps) = False"
| "starts_with (c # s) (p # ps) = (c = p \<and> starts_with s ps)"

fun contains :: "string \<Rightarrow> string \<Rightarrow> bool" where
  "contains [] p = (p = [])"
| "contains (c # s) p = (starts_with (c # s) p \<or> contains s p)"

text \<open>\<^verbatim>\<open>any(keyword in text for keyword in keywords)\<close>.\<close>

definition any_keyword_in :: "string list \<Rightarrow> string \<Rightarrow> bool" where
  "any_keyword_in keywords t = list_ex (\<lambda>keyword. contains t keyword) keywords"

text \<open>\<^verbatim>\<open>s.split(d)\<close> for a one-character separator, and \<^verbatim>\<open>sep.join(xs)\<close>.\<close>

fun split_on :: "char \<Rightarrow> string \<Rightarrow> string list" where
  "split_on d [] = [[]]"
| "split_on d (c # cs) =
     (if c = d then [] # split_on d cs
      else (case split_on d cs of [] \<Rightarrow> [[c]] | l # ls \<Rightarrow> (c # l) # ls))"

fun join :: "string \<Rightarrow> string list \<Rightarrow> string" where
  "join sep [] = []"
| "join sep [x] = x"
| "join sep (x # y # ys) = x @ sep @ join sep (y # ys)"

text \<open>\<^verbatim>\<open>s.replace(old, new)\<close> for a non-empty \<open>old\<close>: the counter skips the rest of a
  match that has just been replaced.\<close>

fun replace_from :: "nat \<Rightarrow> string \<Rightarrow> string \<Rightarrow> string \<Rightarrow> string" where
  "replace_from k old new [] = []"
| "replace_from (Suc k) old new (c # cs) = replace_from k old new cs"
| "replace_from 0 old new (c # cs) =
     (if starts_with (c # cs) old then new @ replace_from (length old - 1) old new cs
      else c # replace_from 0 old new cs)"

definition py_replace :: "string \<Rightarrow> string \<Rightarrow> string \<Rightarrow> string" where
  "py_replace s old new = replace_from 0 old new s"

text \<open>\<^verbatim>\<open>s.find(c)\<close> and \<^verbatim>\<open>s.rfind(c)\<close> for one character: an index, or -1.\<close>

fun find_char :: "char \<Rightarrow> string \<Rightarrow> int" where
  "find_char c [] = - 1"
| "find_char c (x # xs) =
     (if x = c then 0 else (let i = find_char c xs in if i < 0 then - 1 else i + 1))"

definition rfind_char :: "char \<Rightarrow> string \<Rightarrow> int" where
  "rfind_char c s =
     (let i = find_char c (rev s) in if i < 0 then - 1 else int (length s) - 1 - i)"

text \<open>\<^verbatim>\<open>s[a:b]\<close> for \<open>0 \<le> a \<le> b\<close>.\<close>

definition slice :: "string \<Rightarrow> int \<Rightarrow> int \<Rightarrow> string" where
  "slice s a b = take (nat (b - a)) (drop (nat a) s)"

text \<open>The decimal text of an integer, as an f-string prints it.\<close>

fun digits_of_nat :: "nat \<Rightarrow> string" where
  "digits_of_nat n =
     (if n < 10 then [''0123456789'' ! n]
      else digits_of_nat (n div 10) @ [''0123456789'' ! (n mod 10)])"

declare digits_of_nat.simps [simp del]

definition str_of_int :: "int \<Rightarrow> string" where
  "str_of_int i = (if i < 0 then ''-'' @ digits_of_nat (nat (- i)) else digits_of_nat (nat i))"

text \<open>\<^verbatim>\<open>os.path.basename\<close> and \<^verbatim>\<open>os.path.dirname\<close> (POSIX paths).\<close>

definition basename :: "string \<Rightarrow> string" where
  "basename p = rev (takeWhile (\<lambda>c. c \<noteq> CHR ''/'') (rev p))"

definition dirname :: "string \<Rightarrow> string" where
  "dirname p =
     (let h = rev (dropWhile (\<lambda>c. c \<noteq> CHR ''/'') (rev p))
      in if h \<noteq> [] \<and> \<not> list_all (\<lambda>c. c = CHR ''/'') h
         then rev (dropWhile (\<lambda>c. c = CHR ''/'') (rev h)) else h)"

section \<open>Python values, exceptions and the records passed between the phases\<close>

datatype pyval =
    PNone
  | PBool bool
  | PInt int
  | PFloat rat
  | PStr string
  | PList "pyval list"
  | PDict "(string \<times> pyval) list"

type_synonym pydict = "(string \<times> pyval) list"

fun truthy :: "pyval \<Rightarrow> bool" where
  "truthy PNone = False"
| "truthy (PBool b) = b"
| "truthy (PInt i) = (i \<noteq> 0)"
| "truthy (PFloat r) = (r \<noteq> 0)"
| "truthy (PStr s) = (s \<noteq> [])"
| "truthy (PList xs) = (xs \<noteq> [])"
| "truthy (PDict d) = (d \<noteq> [])"

text \<open>\<^verbatim>\<open>d.get(key, default)\<close>.\<close>

definition dict_get :: "pydict \<Rightarrow> string \<Rightarrow> pyval \<Rightarrow> pyval" where
  "dict_get d k dflt = (case map_of d k of Some v \<Rightarrow> v | None \<Rightarrow> dflt)"

text \<open>The exceptions the handlers tell apart; all are subclasses of \<^verbatim>\<open>Exception\<close>.\<close>

datatype exn = JSONDecodeError | RequestException | Other_Exception

text \<open>What \<^verbatim>\<open>response.content\<close> of the reasoning backend holds: text, or a list of
  content blocks.\<close>

datatype llm_content = Text string | Blocks "pyval list"

text \<open>An HTTP call either raises, or answers with a status code and a body;
  the body is \<open>None\<close> when \<^verbatim>\<open>response.json()\<close> would raise.\<close>

datatype http_result = Request_Raises exn | Response int "pyval option"

text \<open>The dictionary \<^verbatim>\<open>email_data\<close> built by \<^verbatim>\<open>fetch_new_mails_to_queue\<close>.\<close>

record email_data =
  email_id :: string
  sender_email :: string
  subject :: string
  content :: string
  claim_id :: string
  attachment_count :: int
  attachment_paths :: "string list"
  llm_filter_result :: "pydict option"

text \<open>The body of \<^verbatim>\<open>POST /send-mail\<close>: \<^verbatim>\<open>mail_id\<close>, \<^verbatim>\<open>subject\<close>, \<^verbatim>\<open>mail_content\<close>.\<close>

type_synonym mail_request = "string \<times> string \<times> string"

text \<open>The result of \<^verbatim>\<open>upload_complete_email\<close>.\<close>

record file_info =
  file_id :: string
  filename :: string
  file_size :: nat

record mongodb_result =
  mr_mail_content :: "file_info option"
  mr_attachments :: "file_info list"
  mr_upload_timestamp :: string

text \<open>The body of \<^verbatim>\<open>POST /add-fulfillment\<close> (\<^verbatim>\<open>api_data\<close>). The last two keys are present
  only for a completed claim with an archive result.\<close>

record api_data =
  api_user_mail :: string
  api_claim_id :: string
  api_mail_content :: string
  api_mail_content_s3_url :: "string option"
  api_attachment_count :: int
  api_attachment_s3_urls :: "string list option"
  api_local_attachment_paths :: "string list option"
  api_fulfillment_status :: string
  api_missing_items :: "string option"
  api_s3_upload_timestamp :: "string option"
  api_mail_content_file_id :: "string option option"
  api_attachment_file_ids :: "string list option"

text \<open>What \<^verbatim>\<open>parse_fulfillment_response\<close> returns.\<close>

record assessment =
  status :: string
  missing_items :: string
  satisfied_items :: "string list"
  email_content :: string

text \<open>One message of the mailbox, as the ingestion loop meets it: the fetch raises, the
  server answers with a status other than OK, parsing or attachment extraction raises, or
  the message is extracted into an \<^verbatim>\<open>email_data\<close> (attachments saved under its claim
  folder). A message that raises is taken to leave nothing on disk.\<close>

datatype fetch_outcome = Fetch_Raises | Fetch_Not_OK | Extract_Raises | Fetched email_data

text \<open>Where a statement of the queue loop's own body can raise: the console report of the
  dequeued record, or the report and pause after it has been handled.\<close>

datatype fault = Fault_On_Display | Fault_On_Report

section \<open>The external collaborators and the state\<close>

text \<open>
  Every call that leaves the process is an oracle of the \<open>world\<close>: prompt and template files,
  Python's \<^verbatim>\<open>str.format\<close>, \<^verbatim>\<open>json.loads\<close> and \<^verbatim>\<open>str\<close> of a block list, the reasoning
  backend, the three HTTP services, the archive, the file system's refusals, the mailbox, the
  tracking collection, the clock, and the faults of the queue loop's own statements
  (\<open>body_fault\<close>). Within one run an oracle answers the same request the same way.

  For the archive: \<open>new_client\<close> says whether \<^verbatim>\<open>MongoClient(...)\<close> returns a client object
  (it does not contact the server), \<open>server_info\<close> whether the server then answers the
  connection test of \<^verbatim>\<open>connect()\<close>. \<open>gridfs_put\<close> is \<^verbatim>\<open>upload_file\<close> by file name: the id of
  the stored blob, or \<open>None\<close> when \<^verbatim>\<open>fs.put\<close> raises. \<open>read_size\<close> is the size of a local file
  that can be read, \<open>mail_content_size\<close> the length of the JSON text of a message.
\<close>

record world =
  prompt_file :: "string \<Rightarrow> string option"
  str_format :: "string \<Rightarrow> (string \<times> string) list \<Rightarrow> exn + string"
  json_loads :: "string \<Rightarrow> pydict option"
  str_of_blocks :: "pyval list \<Rightarrow> string"
  llm_filter :: "email_data \<Rightarrow> exn + llm_content"
  llm_assess :: "string \<Rightarrow> string \<Rightarrow> email_data \<Rightarrow> exn + llm_content"
  user_api :: "string \<Rightarrow> http_result"
  mail_api :: "mail_request \<Rightarrow> http_result"
  fulfillment_api :: "api_data \<Rightarrow> http_result"
  new_client :: bool
  server_info :: bool
  gridfs_put :: "string \<Rightarrow> string option"
  read_size :: "string \<Rightarrow> nat option"
  mail_content_size :: "email_data \<Rightarrow> nat"
  remove_raises :: "string \<Rightarrow> bool"
  rmdir_raises :: "string \<Rightarrow> bool"
  attachments_folder :: string
  imap_count :: "int option"
  imap_fetch :: "int \<Rightarrow> fetch_outcome"
  tracking_read :: bool
  tracking_write :: bool
  now :: string
  body_fault :: "email_data \<Rightarrow> fault option"

text \<open>The calls the process makes, in the order it makes them.\<close>

datatype event =
    Fetch_Message int
  | Classify_Call string
  | Directory_Lookup string
  | Mail_Post mail_request
  | Assess_Call string
  | Archive_Upload string
  | Store_Post api_data
  | Remove_File string
  | Remove_Dir string
  | Cursor_Write int

text \<open>The state outside the work queue: the fulfillment collection behind the API, the
  mail-tracking collection (newest last), the local files and folders, whether the module
  variable \<^verbatim>\<open>mongodb_manager.client\<close> holds a client object, and the trace.\<close>

record sys =
  fulfillment_store :: "api_data list"
  mail_tracking :: "(int \<times> string) list"
  files :: "string set"
  dirs :: "string set"
  mongo_client :: bool
  trace :: "event list"

definition emit :: "event \<Rightarrow> sys \<Rightarrow> sys" where
  "emit ev s = s\<lparr>trace := trace s @ [ev]\<rparr>"

text \<open>The oracle \<open>prompt_file\<close> gives what the source's \<^verbatim>\<open>load_prompt_file\<close> returns: the
  stripped text of the file, or \<open>None\<close> when it cannot be read. The definition below adds the
  caller's truth test: an unreadable or empty file counts as absent.\<close>

definition load_prompt_file :: "world \<Rightarrow> string \<Rightarrow> string option" where
  "load_prompt_file w name =
     (case prompt_file w name of None \<Rightarrow> None | Some t \<Rightarrow> if t = [] then None else Some t)"

section \<open>Fixed-format extraction of the assessment reply\<close>

text \<open>
  \<^verbatim>\<open>re.search(r'FULFILLMENT_STATUS:\s*(COMPLETED|PENDING)', llm_response)\<close>: the leftmost
  position where the marker, any white space and one of the two words stand; the result is
  the word. Neither word starts with white space, so the greedy \<^verbatim>\<open>\s*\<close> never backtracks.
\<close>

definition status_at :: "string \<Rightarrow> string option" where
  "status_at s =
     (if starts_with s ''FULFILLMENT_STATUS:''
      then (let r = skip_space (drop 19 s)
            in if starts_with r ''COMPLETED'' then Some ''COMPLETED''
               else if starts_with r ''PENDING'' then Some ''PENDING'' else None)
      else None)"

fun search_status :: "string \<Rightarrow> string option" where
  "search_status [] = None"
| "search_status (c # cs) =
     (case status_at (c # cs) of Some g \<Rightarrow> Some g | None \<Rightarrow> search_status cs)"

text \<open>
  \<^verbatim>\<open>re.search(r'MISSING_ITEMS:\s*(.*?)(?=\n\n|FULFILLMENT_STATUS:|$)', llm_response, re.DOTALL)\<close>:
  after the leftmost marker and all white space, the lazy group takes characters up to the
  first position where the lookahead holds: a blank line, a status marker, the end of the
  text, or a last newline before the end.
\<close>

definition lookahead :: "string \<Rightarrow> bool" where
  "lookahead r = (starts_with r (nl @ nl) \<or> starts_with r ''FULFILLMENT_STATUS:''
     \<or> r = [] \<or> r = nl)"

fun lazy_group :: "string \<Rightarrow> string" where
  "lazy_group [] = []"
| "lazy_group (c # cs) = (if lookahead (c # cs) then [] else c # lazy_group cs)"

fun search_missing_items :: "string \<Rightarrow> string option" where
  "search_missing_items [] = None"
| "search_missing_items (c # cs) =
     (if starts_with (c # cs) ''MISSING_ITEMS:''
      then Some (lazy_group (skip_space (drop 14 (c # cs))))
      else search_missing_items cs)"

text \<open>The clean-up of the captured block: every non-empty line, stripped, starts with a
  bullet.\<close>

definition format_line :: "string \<Rightarrow> string list" where
  "format_line l =
     (let line = strip l;
          line = (if line \<noteq> [] \<and> \<not> starts_with line ''-'' then ''- '' @ line else line)
      in if line \<noteq> [] then [line] else [])"

definition format_missing_items :: "string \<Rightarrow> string" where
  "format_missing_items g = join nl (concat (map format_line (split_on (CHR 0x0A) (strip g))))"

definition default_missing_items :: string where
  "default_missing_items = ''- Required fulfillment items missing''"

text \<open>The missing-items text of a reply, as the PENDING branch computes it.\<close>

definition extract_missing_items :: "string \<Rightarrow> string" where
  "extract_missing_items r =
     (case search_missing_items r of
        Some g \<Rightarrow> format_missing_items g
      | None \<Rightarrow> default_missing_items)"

section \<open>The satisfied requirements\<close>

definition check_mark :: string where
  "check_mark = [CHR 0xE2, CHR 0x9C, CHR 0x93]"

definition reason_keywords :: "string list" where
  "reason_keywords =
     [''reason'', ''description'', ''what happened'', ''incident'', ''cause'', ''explain'']"

definition amount_keywords :: "string list" where
  "amount_keywords =
     [''amount'', ''dollar'', ''cost'', ''money'', ''price'', ''value'', ''sum'', ''total'',
      ''claim'', ''damage'', ''bill'', ''specific claim amount'', ''currency'']"

definition proof_keywords :: "string list" where
  "proof_keywords =
     [''proof'', ''document'', ''attachment'', ''evidence'', ''support'', ''bill'', ''receipt'',
      ''photo'', ''police report'', ''medical'']"

text \<open>
  The monetary patterns. Each of the first nine is a literal, an optional punctuation
  character, white space, and then at least one digit or comma; the tenth is three or more
  digits or commas in a row. \<^verbatim>\<open>re.search\<close> succeeds when the pattern matches at some
  position.
\<close>

definition digit_or_comma :: "string \<Rightarrow> bool" where
  "digit_or_comma g = (is_digit g \<or> g = '','')"

definition labelled_number_at :: "string \<Rightarrow> char option \<Rightarrow> string \<Rightarrow> bool" where
  "labelled_number_at lit opt s =
     (starts_with s lit \<and>
      (let r = drop (length lit) s;
           r = (case opt of
                  Some c \<Rightarrow> (case r of x # xs \<Rightarrow> if x = c then xs else r | [] \<Rightarrow> r)
                | None \<Rightarrow> r)
       in case dropWhile is_space (chars r) of g # gs \<Rightarrow> digit_or_comma g | [] \<Rightarrow> False))"

definition digit_run_at :: "string \<Rightarrow> bool" where
  "digit_run_at s = (3 \<le> length (takeWhile digit_or_comma (chars s)))"

fun search_at :: "(string \<Rightarrow> bool) \<Rightarrow> string \<Rightarrow> bool" where
  "search_at m [] = m []"
| "search_at m (c # cs) = (m (c # cs) \<or> search_at m cs)"

definition monetary_patterns :: "(string \<Rightarrow> bool) list" where
  "monetary_patterns =
     [labelled_number_at ''$'' None,
      labelled_number_at ''rs'' (Some (CHR ''.'')),
      labelled_number_at ''inr'' None,
      labelled_number_at ''usd'' None,
      labelled_number_at ''amount'' (Some (CHR '':'')),
      labelled_number_at ''cost'' (Some (CHR '':'')),
      labelled_number_at ''claim'' (Some (CHR '':'')),
      labelled_number_at ''damage'' (Some (CHR '':'')),
      labelled_number_at ''total'' (Some (CHR '':'')),
      digit_run_at]"

text \<open>The flag \<^verbatim>\<open>has_monetary_value\<close> that the loop over the patterns sets.\<close>

definition has_monetary_value :: "email_data \<Rightarrow> bool" where
  "has_monetary_value e = list_ex (\<lambda>pattern. search_at pattern (py_lower (content e))) monetary_patterns"

definition email_item :: string where
  "email_item = check_mark @ '' User email address provided''"

definition reason_item :: string where
  "reason_item = check_mark @ '' Reason for claim provided''"

definition amount_item :: string where
  "amount_item = check_mark @ '' Claim amount specified''"

definition documents_item :: "int \<Rightarrow> string" where
  "documents_item n =
     check_mark @ '' Supporting documents provided ('' @ str_of_int n @ '' attachments)''"

definition some_documents_item :: "int \<Rightarrow> string" where
  "some_documents_item n =
     check_mark @ '' Some documents provided ('' @ str_of_int n
       @ '' attachments, additional may be needed)''"

text \<open>
  \<^verbatim>\<open>identify_satisfied_requirements\<close>. The source computes \<^verbatim>\<open>has_monetary_value\<close> and then
  decides the claim-amount item from the keywords alone; the flag is read nowhere.
\<close>

definition identify_satisfied_requirements :: "email_data \<Rightarrow> string \<Rightarrow> string list" where
  "identify_satisfied_requirements e missing_items_text =
     (let missing_lower = py_lower missing_items_text
      in [email_item]
         @ (if \<not> any_keyword_in reason_keywords missing_lower then [reason_item] else [])
         @ (if \<not> any_keyword_in amount_keywords missing_lower then [amount_item] else [])
         @ (if attachment_count e > 0
            then (if \<not> any_keyword_in proof_keywords missing_lower
                  then [documents_item (attachment_count e)]
                  else [some_documents_item (attachment_count e)])
            else []))"

section \<open>Parsing the assessment reply\<close>

text \<open>The body of the customer email for a pending claim: from the template when the
  prompt file is there, else the fixed fallback text. \<^verbatim>\<open>str.format\<close> may raise.\<close>

definition template_content :: "string \<Rightarrow> string" where
  "template_content email_template =
     (let lines = split_on (CHR 0x0A) email_template;
          content_start = (if length lines > 1 \<and> lines ! 1 = [] then 2 else 1)
      in join nl (drop content_start lines))"

definition fallback_pending_body :: "string list \<Rightarrow> string \<Rightarrow> string" where
  "fallback_pending_body satisfied missing =
     (let satisfied_items_text =
            (if satisfied \<noteq> []
             then join '', '' (map (\<lambda>item. py_replace item (check_mark @ '' '') []) satisfied)
             else ''None'')
      in ''Dear Customer,'' @ nl @ nl
         @ ''Thank you for submitting your insurance claim. We have reviewed your submission:''
         @ nl @ nl
         @ ''REQUIREMENTS SATISFIED: '' @ satisfied_items_text @ nl @ nl
         @ ''MISSING REQUIREMENTS: '' @ missing @ nl @ nl
         @ ''Please reply with the missing information and supporting documents.'' @ nl @ nl
         @ ''Best regards,'' @ nl
         @ ''Insurance Claims Team'')"

definition pending_email_body :: "world \<Rightarrow> string list \<Rightarrow> string \<Rightarrow> exn + string" where
  "pending_email_body w satisfied missing =
     (case load_prompt_file w ''fulfillment_pending_email.txt'' of
        Some email_template \<Rightarrow>
          str_format w (template_content email_template)
            [(''satisfied_items'', if satisfied \<noteq> [] then join nl satisfied else ''None identified''),
             (''missing_items'', missing)]
      | None \<Rightarrow> Inr (fallback_pending_body satisfied missing))"

text \<open>
  \<^verbatim>\<open>parse_fulfillment_response\<close>. The result is \<open>None\<close> where the source's handler returns
  \<^verbatim>\<open>None\<close>: the reply is not text (\<^verbatim>\<open>re.search\<close> raises), or formatting the template raises.
\<close>

definition reconcile :: "email_data \<Rightarrow> string \<Rightarrow> string \<times> string \<times> string list" where
  "reconcile e r =
     (let missing = extract_missing_items r;
          satisfied = identify_satisfied_requirements e missing
      in if length satisfied \<ge> 4
            \<and> (missing = [] \<or> strip missing = [] \<or> missing = default_missing_items)
         then (''COMPLETED'', [], [])
         else (''PENDING'', missing, satisfied))"

definition parse_fulfillment_response :: "world \<Rightarrow> llm_content \<Rightarrow> email_data \<Rightarrow> assessment option" where
  "parse_fulfillment_response w llm_response e =
     (case llm_response of
        Blocks bs \<Rightarrow> None
      | Text r \<Rightarrow>
          (let stated = (case search_status r of Some g \<Rightarrow> g | None \<Rightarrow> ''PENDING'');
               (st, missing, satisfied) =
                 (if stated = ''PENDING'' then reconcile e r
                  else (stated, [],
                        [email_item, reason_item, amount_item, documents_item (attachment_count e)]))
           in if st = ''PENDING''
              then (case pending_email_body w satisfied missing of
                      Inl x \<Rightarrow> None
                    | Inr body \<Rightarrow>
                        Some \<lparr>status = st, missing_items = missing,
                              satisfied_items = satisfied, email_content = body\<rparr>)
              else Some \<lparr>status = st, missing_items = missing,
                         satisfied_items = satisfied, email_content = []\<rparr>))"

section \<open>The classifier client\<close>

definition insurance_keywords :: "string list" where
  "insurance_keywords =
     [''claim'', ''insurance'', ''policy'', ''coverage'', ''damage'', ''accident'']"

text \<open>\<^verbatim>\<open>sum(1 for keyword in insurance_keywords if keyword in subject or keyword in content)\<close>,
  on the lower-cased subject and body.\<close>

definition keyword_count :: "email_data \<Rightarrow> nat" where
  "keyword_count e =
     length (filter (\<lambda>keyword. contains (py_lower (subject e)) keyword
                              \<or> contains (py_lower (content e)) keyword) insurance_keywords)"

definition fallback_insurance_check :: "email_data \<Rightarrow> pydict" where
  "fallback_insurance_check e =
     [(''is_insurance'', PBool (keyword_count e \<ge> 2)),
      (''confidence'', PInt 30),
      (''reasoning'', PStr (''Fallback keyword check found '' @ str_of_int (int (keyword_count e))
                             @ '' insurance keywords'')),
      (''category'', PStr ''fallback_analysis'')]"

definition parse_llm_response_fallback :: "string \<Rightarrow> pydict" where
  "parse_llm_response_fallback response_content =
     (let response_lower = py_lower response_content;
          is_insurance = any_keyword_in [''true'', ''yes'', ''insurance'', ''claim''] response_lower;
          category =
            (if contains response_lower ''auto'' \<or> contains response_lower ''car''
             then ''auto_claim''
             else if contains response_lower ''health'' \<or> contains response_lower ''medical''
             then ''health_inquiry''
             else if contains response_lower ''home'' \<or> contains response_lower ''property''
             then ''property_claim''
             else ''unknown'')
      in [(''is_insurance'', PBool is_insurance),
          (''confidence'', PInt 50),
          (''reasoning'', PStr ''LLM response parsing failed, using fallback analysis''),
          (''category'', PStr category)])"

text \<open>Whether the outermost \<^verbatim>\<open>{...}\<close> span can be located in the response text.\<close>

definition json_span :: "string \<Rightarrow> (int \<times> int) option" where
  "json_span response_content =
     (let json_start = find_char (CHR ''{'') response_content;
          json_end = rfind_char (CHR ''}'') response_content + 1
      in if json_start \<ge> 0 \<and> json_end > json_start then Some (json_start, json_end) else None)"

text \<open>
  \<^verbatim>\<open>filter_email_with_llm\<close>. An exception of the backend call reaches the outer handler; a
  span that \<^verbatim>\<open>json.loads\<close> rejects reaches the inner one; both answer with the keyword
  check. A response without a span goes to \<^verbatim>\<open>_parse_llm_response_fallback\<close>.
\<close>

definition filter_email_with_llm :: "world \<Rightarrow> email_data \<Rightarrow> pydict" where
  "filter_email_with_llm w e =
     (case llm_filter w e of
        Inl x \<Rightarrow> fallback_insurance_check e
      | Inr (Text response_content) \<Rightarrow>
          (case json_span response_content of
             Some (json_start, json_end) \<Rightarrow>
               (case json_loads w (slice response_content json_start json_end) of
                  None \<Rightarrow> fallback_insurance_check e
                | Some result \<Rightarrow> result)
           | None \<Rightarrow> parse_llm_response_fallback response_content)
      | Inr (Blocks bs) \<Rightarrow> parse_llm_response_fallback (str_of_blocks w bs))"

section \<open>The notifier and the directory client\<close>

definition http_ok :: "http_result \<Rightarrow> bool" where
  "http_ok r = (case r of Request_Raises x \<Rightarrow> False | Response code body \<Rightarrow> code = 200)"

definition send_mail_via_service :: "world \<Rightarrow> string \<Rightarrow> string \<Rightarrow> string \<Rightarrow> sys \<Rightarrow> bool \<times> sys" where
  "send_mail_via_service w to_email subj body s =
     (http_ok (mail_api w (to_email, subj, body)), emit (Mail_Post (to_email, subj, body)) s)"

text \<open>
  \<^verbatim>\<open>check_user_registration\<close>. A transport error, a status other than 200, a body that is
  not a JSON object, a \<^verbatim>\<open>status\<close> other than \<^verbatim>\<open>success\<close> and a \<^verbatim>\<open>user\<close> that is not an
  object (its \<^verbatim>\<open>.get\<close> raises inside the handler) all answer \<^verbatim>\<open>(False, None)\<close>.
\<close>

definition registration_of :: "http_result \<Rightarrow> bool \<times> pydict option" where
  "registration_of r =
     (case r of
        Request_Raises x \<Rightarrow> (False, None)
      | Response code body \<Rightarrow>
          if code = 200
          then (case body of
                  Some (PDict data) \<Rightarrow>
                    if map_of data ''status'' = Some (PStr ''success'')
                    then (case dict_get data ''user'' (PDict []) of
                            PDict user_data \<Rightarrow> (True, Some user_data)
                          | _ \<Rightarrow> (False, None))
                    else (False, None)
                | _ \<Rightarrow> (False, None))
          else (False, None))"

definition check_user_registration :: "world \<Rightarrow> string \<Rightarrow> sys \<Rightarrow> (bool \<times> pydict option) \<times> sys" where
  "check_user_registration w email_address s =
     (registration_of (user_api w email_address), emit (Directory_Lookup email_address) s)"

definition registration_subject :: string where
  "registration_subject = ''Insurance Claim - Registration Required''"

definition minimal_registration_body :: "string \<Rightarrow> string \<Rightarrow> string" where
  "minimal_registration_body to_email claim =
     ''Dear Customer,'' @ nl @ nl @ ''Your email '' @ to_email
       @ '' is not registered in our system.'' @ nl @ nl
       @ ''Claim Reference: '' @ claim @ nl @ nl
       @ ''Please contact customer service.'' @ nl @ nl
       @ ''Best regards,'' @ nl @ ''Insurance Claims Team''"

text \<open>The subject and body of the registration-required notification, or the exception that
  \<^verbatim>\<open>str.format\<close> raises on the template.\<close>

definition registration_notice :: "world \<Rightarrow> string \<Rightarrow> string \<Rightarrow> exn + (string \<times> string)" where
  "registration_notice w to_email claim =
     (case (case load_prompt_file w ''user_not_found_email.txt'' of
              Some t \<Rightarrow> Some t
            | None \<Rightarrow> load_prompt_file w ''user_not_found_fallback.txt'') of
        Some email_template \<Rightarrow>
          (let subj = (case split_on (CHR 0x0A) email_template of
                         [] \<Rightarrow> registration_subject
                       | l # ls \<Rightarrow> if starts_with l ''Subject: ''
                                    then py_replace l ''Subject: '' [] else registration_subject)
           in case str_format w (template_content email_template)
                     [(''claim_id'', claim), (''user_email'', to_email)] of
                Inl x \<Rightarrow> Inl x
              | Inr body \<Rightarrow> Inr (subj, body))
      | None \<Rightarrow> Inr (registration_subject, minimal_registration_body to_email claim))"

definition send_unregistered_user_email_via_service ::
  "world \<Rightarrow> string \<Rightarrow> string \<Rightarrow> sys \<Rightarrow> bool \<times> sys" where
  "send_unregistered_user_email_via_service w to_email claim s =
     (case registration_notice w to_email claim of
        Inl x \<Rightarrow> (False, s)
      | Inr (subj, body) \<Rightarrow>
          (http_ok (mail_api w (to_email, subj, body)), emit (Mail_Post (to_email, subj, body)) s))"

section \<open>The fulfillment engine\<close>

definition default_requirements :: string where
  "default_requirements =
     nl @ ''            1. User email address'' @ nl
        @ ''            2. Reason for claim'' @ nl
        @ ''            3. Claim amount'' @ nl
        @ ''            4. Supporting proofs (attachments)'' @ nl
        @ ''            ''"

text \<open>\<^verbatim>\<open>assess_fulfillment_with_llm\<close>: no call is made without the system prompt; the
  requirements fall back to the built-in list; an exception of the call gives \<open>None\<close>.\<close>

definition assess_fulfillment_with_llm :: "world \<Rightarrow> email_data \<Rightarrow> sys \<Rightarrow> llm_content option \<times> sys" where
  "assess_fulfillment_with_llm w e s =
     (case load_prompt_file w ''fulfillment_system_prompt.txt'' of
        None \<Rightarrow> (None, s)
      | Some system_prompt_content \<Rightarrow>
          (let requirements_content =
                 (case load_prompt_file w ''fulfillment_requirements.txt'' of
                    Some t \<Rightarrow> t | None \<Rightarrow> default_requirements)
           in (case llm_assess w system_prompt_content requirements_content e of
                 Inl x \<Rightarrow> None
               | Inr response_content \<Rightarrow> Some response_content,
               emit (Assess_Call (claim_id e)) s)))"

text \<open>The truth value of the reply (\<^verbatim>\<open>if not llm_response\<close>).\<close>

definition content_truthy :: "llm_content \<Rightarrow> bool" where
  "content_truthy c = (case c of Text t \<Rightarrow> t \<noteq> [] | Blocks bs \<Rightarrow> bs \<noteq> [])"

text \<open>The request \<^verbatim>\<open>save_to_fulfillment_table\<close> prepares: \<open>archived_api_data\<close> for a completed
  claim that has an archive result (the branch \<^verbatim>\<open>if mongodb_result and status == "completed"\<close>),
  \<open>local_api_data\<close> otherwise.\<close>

definition list_or_none :: "'a list \<Rightarrow> 'a list option" where
  "list_or_none xs = (if xs \<noteq> [] then Some xs else None)"

definition archived_api_data :: "email_data \<Rightarrow> string \<Rightarrow> string \<Rightarrow> mongodb_result \<Rightarrow> api_data" where
  "archived_api_data e st missing mongodb_result =
     (let mail_content_file_id = map_option file_id (mr_mail_content mongodb_result);
          attachment_file_ids = map file_id (mr_attachments mongodb_result)
      in \<lparr>api_user_mail = sender_email e,
          api_claim_id = claim_id e,
          api_mail_content = ''Subject: '' @ subject e @ nl @ ''Content: '' @ take_chars 800 (content e),
          api_mail_content_s3_url =
            (case mail_content_file_id of
               Some i \<Rightarrow> if i \<noteq> [] then Some (''mongodb://gridfs/'' @ i) else None
             | None \<Rightarrow> None),
          api_attachment_count = int (length attachment_file_ids),
          api_attachment_s3_urls =
            list_or_none (map (\<lambda>i. ''mongodb://gridfs/'' @ i) attachment_file_ids),
          api_local_attachment_paths = list_or_none (map basename (attachment_paths e)),
          api_fulfillment_status = st,
          api_missing_items = (if missing \<noteq> [] then Some missing else None),
          api_s3_upload_timestamp = Some (mr_upload_timestamp mongodb_result),
          api_mail_content_file_id = Some mail_content_file_id,
          api_attachment_file_ids = Some attachment_file_ids\<rparr>)"

definition local_api_data :: "email_data \<Rightarrow> string \<Rightarrow> string \<Rightarrow> api_data" where
  "local_api_data e st missing =
     \<lparr>api_user_mail = sender_email e,
      api_claim_id = claim_id e,
      api_mail_content = take_chars 1000 (''Subject: '' @ subject e @ nl @ ''Content: '' @ content e),
      api_mail_content_s3_url = None,
      api_attachment_count = int (length (attachment_paths e)),
      api_attachment_s3_urls = None,
      api_local_attachment_paths = list_or_none (map basename (attachment_paths e)),
      api_fulfillment_status = st,
      api_missing_items = (if missing \<noteq> [] then Some missing else None),
      api_s3_upload_timestamp = None,
      api_mail_content_file_id = None,
      api_attachment_file_ids = None\<rparr>"

definition build_api_data :: "email_data \<Rightarrow> string \<Rightarrow> string \<Rightarrow> mongodb_result option \<Rightarrow> api_data" where
  "build_api_data e st missing mongodb_result =
     (case mongodb_result of
        Some r \<Rightarrow> if st = ''completed'' then archived_api_data e st missing r
                  else local_api_data e st missing
      | None \<Rightarrow> local_api_data e st missing)"

text \<open>
  \<^verbatim>\<open>save_to_fulfillment_table\<close>: one \<^verbatim>\<open>POST /add-fulfillment\<close>. The API answers 200 exactly
  when it has inserted the document, so the store grows on a 200 answer. The result is the
  \<^verbatim>\<open>fulfillment_id\<close> of a 200 answer, and \<^verbatim>\<open>None\<close> when the call raises, the status is
  not 200 or the body is not a JSON object.
\<close>

definition fulfillment_id_of :: "http_result \<Rightarrow> pyval" where
  "fulfillment_id_of r =
     (case r of
        Request_Raises x \<Rightarrow> PNone
      | Response code body \<Rightarrow>
          if code = 200
          then (case body of
                  Some (PDict result) \<Rightarrow> dict_get result ''fulfillment_id'' PNone
                | _ \<Rightarrow> PNone)
          else PNone)"

definition save_to_fulfillment_table ::
  "world \<Rightarrow> email_data \<Rightarrow> string \<Rightarrow> string \<Rightarrow> mongodb_result option \<Rightarrow> sys \<Rightarrow> pyval \<times> sys" where
  "save_to_fulfillment_table w e st missing mongodb_result s =
     (let request = build_api_data e st missing mongodb_result;
          s1 = emit (Store_Post request) s
      in (fulfillment_id_of (fulfillment_api w request),
          if http_ok (fulfillment_api w request)
          then s1\<lparr>fulfillment_store := fulfillment_store s1 @ [request]\<rparr>
          else s1))"

text \<open>
  The archive upload of \<^verbatim>\<open>mongodb_manager\<close>. \<^verbatim>\<open>upload_mail_content\<close> and
  \<^verbatim>\<open>upload_attachment\<close> answer \<^verbatim>\<open>None\<close> when the blob cannot be stored or the file cannot be
  read. \<^verbatim>\<open>upload_complete_email\<close> collects what was stored and returns its summary in every
  case: the mail content is \<open>None\<close> and the attachment list empty when nothing was stored.
\<close>

definition upload_mail_content :: "world \<Rightarrow> string \<Rightarrow> string \<Rightarrow> email_data \<Rightarrow> file_info option" where
  "upload_mail_content w user_email claim e =
     (case gridfs_put w (claim @ ''_mail_content.json'') of
        Some i \<Rightarrow>
          if i \<noteq> []
          then Some \<lparr>file_id = i, filename = claim @ ''_mail_content.json'',
                     file_size = mail_content_size w e\<rparr>
          else None
      | None \<Rightarrow> None)"

definition upload_attachment :: "world \<Rightarrow> sys \<Rightarrow> string \<Rightarrow> string \<Rightarrow> string \<Rightarrow> file_info option" where
  "upload_attachment w s user_email claim attachment_path =
     (if attachment_path \<notin> files s \<union> dirs s then None
      else if attachment_path \<notin> files s then None
      else (case read_size w attachment_path of
              None \<Rightarrow> None
            | Some n \<Rightarrow>
                (case gridfs_put w (basename attachment_path) of
                   Some i \<Rightarrow>
                     if i \<noteq> []
                     then Some \<lparr>file_id = i, filename = basename attachment_path, file_size = n\<rparr>
                     else None
                 | None \<Rightarrow> None)))"

definition upload_complete_email :: "world \<Rightarrow> sys \<Rightarrow> email_data \<Rightarrow> string \<Rightarrow> mongodb_result option" where
  "upload_complete_email w s e claim =
     Some \<lparr>mr_mail_content = upload_mail_content w (sender_email e) claim e,
           mr_attachments =
             List.map_filter
               (\<lambda>attachment_path.
                  if attachment_path \<in> files s \<union> dirs s
                  then upload_attachment w s (sender_email e) claim attachment_path
                  else None)
               (attachment_paths e),
           mr_upload_timestamp = now w\<rparr>"

text \<open>
  \<^verbatim>\<open>mongodb_manager.connect\<close> assigns the client object before it tests the server: after a
  failed test the module variable holds a client all the same. When \<^verbatim>\<open>MongoClient(...)\<close>
  itself raises, the variable keeps what it held.
\<close>

definition connect :: "world \<Rightarrow> sys \<Rightarrow> bool \<times> sys" where
  "connect w s =
     (if new_client w then (server_info w, s\<lparr>mongo_client := True\<rparr>) else (False, s))"

text \<open>The fulfillment module connects once when it is loaded.\<close>

definition module_loaded :: "world \<Rightarrow> sys \<Rightarrow> sys" where
  "module_loaded w s = snd (connect w s)"

text \<open>
  \<^verbatim>\<open>upload_to_mongodb_for_completed_fulfillment\<close>: without a client object it connects, and
  the result is \<^verbatim>\<open>None\<close> when that fails; otherwise it is what \<^verbatim>\<open>upload_complete_email\<close>
  returns.
\<close>

definition upload_to_mongodb_for_completed_fulfillment ::
  "world \<Rightarrow> email_data \<Rightarrow> sys \<Rightarrow> mongodb_result option \<times> sys" where
  "upload_to_mongodb_for_completed_fulfillment w e s =
     (if \<not> mongo_client s
      then (case connect w s of
              (ok, s1) \<Rightarrow>
                if \<not> ok then (None, s1)
                else (upload_complete_email w s1 e (claim_id e),
                      emit (Archive_Upload (claim_id e)) s1))
      else (upload_complete_email w s e (claim_id e), emit (Archive_Upload (claim_id e)) s))"

text \<open>Local clean-up: each attachment that exists is removed (a refusal is counted, not
  raised); the claim folder of the first attachment is removed when it exists and is empty.\<close>

definition remove_path :: "world \<Rightarrow> string \<Rightarrow> sys \<Rightarrow> sys" where
  "remove_path w p s =
     (if p \<in> files s \<and> \<not> remove_raises w p
      then emit (Remove_File p) (s\<lparr>files := files s - {p}\<rparr>) else s)"

fun remove_attachments :: "world \<Rightarrow> string list \<Rightarrow> sys \<Rightarrow> sys" where
  "remove_attachments w [] s = s"
| "remove_attachments w (p # ps) s = remove_attachments w ps (remove_path w p s)"

definition folder_is_empty :: "sys \<Rightarrow> string \<Rightarrow> bool" where
  "folder_is_empty s d = ({p \<in> files s \<union> dirs s. dirname p = d} = {})"

definition remove_claim_folder :: "world \<Rightarrow> string list \<Rightarrow> sys \<Rightarrow> sys" where
  "remove_claim_folder w paths s =
     (case paths of
        [] \<Rightarrow> s
      | first_attachment # rest \<Rightarrow>
          (let claim_folder = dirname first_attachment
           in if claim_folder \<in> dirs s \<and> folder_is_empty s claim_folder
                 \<and> \<not> rmdir_raises w claim_folder
              then emit (Remove_Dir claim_folder) (s\<lparr>dirs := dirs s - {claim_folder}\<rparr>)
              else s))"

definition cleanup_local_files_after_mongodb_upload :: "world \<Rightarrow> email_data \<Rightarrow> sys \<Rightarrow> sys" where
  "cleanup_local_files_after_mongodb_upload w e s =
     remove_claim_folder w (attachment_paths e) (remove_attachments w (attachment_paths e) s)"

definition pending_subject :: string where
  "pending_subject = ''Insurance Claim - Additional Information Required''"

text \<open>\<^verbatim>\<open>process_email_fulfillment\<close>; the result is the Python value it returns. Its two
  branches are \<open>complete_claim\<close> (status COMPLETED) and \<open>pend_claim\<close> (status PENDING).\<close>

definition complete_claim :: "world \<Rightarrow> email_data \<Rightarrow> sys \<Rightarrow> pyval \<times> sys" where
  "complete_claim w e s =
     (case upload_to_mongodb_for_completed_fulfillment w e s of
        (Some mongodb_result, s1) \<Rightarrow>
          (case save_to_fulfillment_table w e ''completed'' [] (Some mongodb_result) s1 of
             (success, s2) \<Rightarrow>
               if truthy success
               then (success, cleanup_local_files_after_mongodb_upload w e s2)
               else (success, s2))
      | (None, s1) \<Rightarrow> save_to_fulfillment_table w e ''completed'' [] None s1)"

definition pend_claim :: "world \<Rightarrow> email_data \<Rightarrow> assessment \<Rightarrow> sys \<Rightarrow> pyval \<times> sys" where
  "pend_claim w e parsed_result s =
     (case save_to_fulfillment_table w e ''pending'' (missing_items parsed_result) None s of
        (success, s1) \<Rightarrow>
          if truthy success
          then (case send_mail_via_service w (sender_email e) pending_subject
                       (email_content parsed_result) s1 of
                  (email_sent, s2) \<Rightarrow> (PBool email_sent, s2))
          else (success, s1))"

definition process_email_fulfillment :: "world \<Rightarrow> email_data \<Rightarrow> sys \<Rightarrow> pyval \<times> sys" where
  "process_email_fulfillment w e s =
     (case assess_fulfillment_with_llm w e s of
        (None, s1) \<Rightarrow> (PBool False, s1)
      | (Some llm_response, s1) \<Rightarrow>
          if \<not> content_truthy llm_response then (PBool False, s1)
          else (case parse_fulfillment_response w llm_response e of
                  None \<Rightarrow> (PBool False, s1)
                | Some parsed_result \<Rightarrow>
                    if status parsed_result = ''COMPLETED'' then complete_claim w e s1
                    else if status parsed_result = ''PENDING'' then pend_claim w e parsed_result s1
                    else (PNone, s1)))"

section \<open>The mailbox cursor and the ingestion pipeline\<close>

definition get_current_mail_count :: "world \<Rightarrow> int" where
  "get_current_mail_count w = (case imap_count w of Some n \<Rightarrow> n | None \<Rightarrow> 0)"

text \<open>The newest tracking record, or \<^verbatim>\<open>(0, None)\<close> when there is none or the read fails.\<close>

definition get_stored_mail_details :: "world \<Rightarrow> sys \<Rightarrow> int \<times> string option" where
  "get_stored_mail_details w s =
     (if tracking_read w
      then (case rev (mail_tracking s) of
              [] \<Rightarrow> (0, None)
            | (mail_count, last_connection_time) # older \<Rightarrow> (mail_count, Some last_connection_time))
      else (0, None))"

definition update_mail_details :: "world \<Rightarrow> int \<Rightarrow> sys \<Rightarrow> bool \<times> sys" where
  "update_mail_details w mail_count s =
     (let s1 = emit (Cursor_Write mail_count) s
      in if tracking_write w
         then (True, s1\<lparr>mail_tracking := mail_tracking s1 @ [(mail_count, now w)]\<rparr>)
         else (False, s1))"

text \<open>What \<^verbatim>\<open>process_email_attachments\<close> leaves on disk for an extracted message: its claim
  folder and its attachment files.\<close>

definition save_attachments :: "world \<Rightarrow> email_data \<Rightarrow> sys \<Rightarrow> sys" where
  "save_attachments w e s =
     s\<lparr>files := files s \<union> set (attachment_paths e),
       dirs := dirs s \<union> {attachments_folder w @ ''/'' @ claim_id e}\<rparr>"

text \<open>One turn of the loop over the new sequence numbers: a message that cannot be fetched
  or extracted is logged and skipped; an extracted one is classified, and queued when the
  result is a non-empty dictionary with a true \<^verbatim>\<open>is_insurance\<close>; otherwise its attachments
  and its emptied claim folder are removed. The accumulator holds the queue, the state and
  \<^verbatim>\<open>emails_added\<close>.\<close>

definition fetch_one :: "world \<Rightarrow> int \<Rightarrow> email_data list \<times> sys \<times> nat \<Rightarrow> email_data list \<times> sys \<times> nat" where
  "fetch_one w i acc =
     (case acc of (q, s, emails_added) \<Rightarrow>
        (let s1 = emit (Fetch_Message i) s
         in case imap_fetch w i of
              Fetched e \<Rightarrow>
                (let s2 = emit (Classify_Call (claim_id e)) (save_attachments w e s1);
                     llm_result = filter_email_with_llm w e
                 in if llm_result \<noteq> [] \<and> truthy (dict_get llm_result ''is_insurance'' (PBool False))
                    then (q @ [e\<lparr>llm_filter_result := Some llm_result\<rparr>], s2, emails_added + 1)
                    else (q, remove_claim_folder w (attachment_paths e)
                               (remove_attachments w (attachment_paths e) s2), emails_added))
            | _ \<Rightarrow> (q, s1, emails_added)))"

text \<open>\<^verbatim>\<open>fetch_new_mails_to_queue\<close>: the sequence numbers \<open>stored_count + 1\<close> to
  \<open>current_count\<close>, ascending.\<close>

definition fetch_new_mails_to_queue ::
  "world \<Rightarrow> int \<Rightarrow> int \<Rightarrow> email_data list \<times> sys \<Rightarrow> email_data list \<times> sys \<times> nat" where
  "fetch_new_mails_to_queue w stored_count current_count qs =
     fold (fetch_one w) [stored_count + 1 .. current_count] (fst qs, snd qs, 0)"

section \<open>The queue processor\<close>

text \<open>
  The body of the \<^verbatim>\<open>try\<close> for one dequeued record. The helpers catch their own exceptions;
  what can still raise is one of the body's own statements (a read of the record, the console,
  the pause), and \<open>body_fault\<close> says for which record and where. The result is the state
  reached and either the exception or the increment of \<^verbatim>\<open>processed_count\<close>.
\<close>

definition process_queued_email :: "world \<Rightarrow> email_data \<Rightarrow> sys \<Rightarrow> sys \<times> (exn + nat)" where
  "process_queued_email w e s =
     (if body_fault w e = Some Fault_On_Display then (s, Inl Other_Exception)
      else (case check_user_registration w (sender_email e) s of
              ((is_registered, user_data), s1) \<Rightarrow>
                if \<not> is_registered
                then (case send_unregistered_user_email_via_service w (sender_email e) (claim_id e) s1 of
                        (email_sent, s2) \<Rightarrow>
                          if body_fault w e = Some Fault_On_Report then (s2, Inl Other_Exception)
                          else (s2, Inr (if email_sent then 1 else 0)))
                else (case process_email_fulfillment w e s1 of
                        (success, s2) \<Rightarrow>
                          if body_fault w e = Some Fault_On_Report then (s2, Inl Other_Exception)
                          else (s2, Inr 1))))"

text \<open>
  \<^verbatim>\<open>process_email_queue\<close>: while the queue is not empty, dequeue and handle one record; the
  handler of the \<^verbatim>\<open>try\<close> logs the exception and leaves the loop (\<^verbatim>\<open>break\<close>). The result is
  the queue that is left, the state and \<^verbatim>\<open>processed_count\<close>.
\<close>

fun drain :: "world \<Rightarrow> email_data list \<Rightarrow> sys \<Rightarrow> nat \<Rightarrow> email_data list \<times> sys \<times> nat" where
  "drain w [] s processed_count = ([], s, processed_count)"
| "drain w (e # q) s processed_count =
     (case process_queued_email w e s of
        (s1, Inl x) \<Rightarrow> (q, s1, processed_count)
      | (s1, Inr k) \<Rightarrow> drain w q s1 (processed_count + k))"

definition process_email_queue :: "world \<Rightarrow> email_data list \<times> sys \<Rightarrow> email_data list \<times> sys \<times> nat" where
  "process_email_queue w qs = drain w (fst qs) (snd qs) 0"

section \<open>One turn of the monitoring loop\<close>

text \<open>The body of \<^verbatim>\<open>while True\<close> in \<^verbatim>\<open>monitor_mails\<close>, without the pause.\<close>

definition monitor_cycle :: "world \<Rightarrow> email_data list \<times> sys \<Rightarrow> email_data list \<times> sys" where
  "monitor_cycle w qs =
     (let current_mail_count = get_current_mail_count w;
          (stored_mail_count, last_connection_time) = get_stored_mail_details w (snd qs)
      in if last_connection_time = None
         then (fst qs, snd (update_mail_details w current_mail_count (snd qs)))
         else if current_mail_count > stored_mail_count
         then (case fetch_new_mails_to_queue w stored_mail_count current_mail_count qs of
                 (q1, s1, emails_added) \<Rightarrow>
                   (let s2 = snd (update_mail_details w current_mail_count s1)
                    in if emails_added > 0
                       then (case process_email_queue w (q1, s2) of (q2, s3, n) \<Rightarrow> (q2, s3))
                       else (q1, s2)))
         else qs)"

section \<open>Scenarios\<close>

text \<open>A world in which every collaborator is absent or failing, the starting point of the
  concrete scenarios; an empty state; and the message of the end-to-end scenarios.\<close>

definition quiet_world :: world where
  "quiet_world =
     \<lparr>prompt_file = (\<lambda>name. None),
      str_format = (\<lambda>t args. Inl Other_Exception),
      json_loads = (\<lambda>t. None),
      str_of_blocks = (\<lambda>bs. []),
      llm_filter = (\<lambda>e. Inl Other_Exception),
      llm_assess = (\<lambda>sp rq e. Inl Other_Exception),
      user_api = (\<lambda>a. Request_Raises RequestException),
      mail_api = (\<lambda>m. Request_Raises RequestException),
      fulfillment_api = (\<lambda>a. Request_Raises RequestException),
      new_client = False,
      server_info = False,
      gridfs_put = (\<lambda>name. None),
      read_size = (\<lambda>p. None),
      mail_content_size = (\<lambda>e. 0),
      remove_raises = (\<lambda>p. False),
      rmdir_raises = (\<lambda>p. False),
      attachments_folder = ''attachments'',
      imap_count = None,
      imap_fetch = (\<lambda>i. Fetch_Not_OK),
      tracking_read = True,
      tracking_write = True,
      now = ''2024-01-01T00:00:00'',
      body_fault = (\<lambda>e. None)\<rparr>"

definition empty_sys :: sys where
  "empty_sys =
     \<lparr>fulfillment_store = [], mail_tracking = [], files = {}, dirs = {}, mongo_client = False,
      trace = []\<rparr>"

definition accident_mail :: email_data where
  "accident_mail =
     \<lparr>email_id = ''11'', sender_email = ''ann@example.com'', subject = ''Car accident claim'',
      content = ''My car was damaged, total cost $3000, see attached photo'',
      claim_id = ''CLAIM_0A1B2C3D'', attachment_count = 1,
      attachment_paths = [''attachments/CLAIM_0A1B2C3D/17_photo.jpg''],
      llm_filter_result = None\<rparr>"

definition bare_mail :: email_data where
  "bare_mail =
     \<lparr>email_id = ''12'', sender_email = ''bob@example.com'', subject = ''Insurance claim'',
      content = ''My car was damaged'', claim_id = ''CLAIM_4E5F6A7B'', attachment_count = 0,
      attachment_paths = [], llm_filter_result = None\<rparr>"

text \<open>Replies of the reasoning backend to the assessment request.\<close>

definition pending_reply :: string where
  "pending_reply = ''FULFILLMENT_STATUS: PENDING''"

definition amount_missing_reply :: string where
  "amount_missing_reply =
     ''FULFILLMENT_STATUS: PENDING'' @ nl @ ''MISSING_ITEMS:'' @ nl
       @ ''- Specific claim amount not provided''"

definition two_marker_reply :: string where
  "two_marker_reply =
     ''FULFILLMENT_STATUS: PENDING'' @ nl @ ''MISSING_ITEMS:'' @ nl @ ''- Supporting documents'' @ nl @ nl
       @ ''Reply FULFILLMENT_STATUS: COMPLETED once they arrive.''"

definition completed_reply :: string where
  "completed_reply = ''FULFILLMENT_STATUS: COMPLETED''"

text \<open>Worlds whose relevance backend answers without a JSON object, and with a span that is
  not JSON.\<close>

definition prose_world :: world where
  "prose_world = quiet_world\<lparr>llm_filter := (\<lambda>e. Inr (Text ''This is spam.''))\<rparr>"

definition broken_json_world :: world where
  "broken_json_world = quiet_world\<lparr>llm_filter := (\<lambda>e. Inr (Text ''{is_insurance: maybe}''))\<rparr>"

text \<open>A world for the PENDING branch: the system prompt is there, the backend names a missing
  amount, the fulfillment API stores the record, and the mail service refuses the
  notification.\<close>

definition stored_answer :: http_result where
  "stored_answer =
     Response 200 (Some (PDict [(''success'', PBool True),
                                (''fulfillment_id'', PStr ''65f0c0ffee65f0c0ffee65f0''),
                                (''message'', PStr ''Fulfillment data saved successfully in MongoDB'')]))"

definition pending_world :: world where
  "pending_world =
     quiet_world\<lparr>prompt_file := (\<lambda>name. if name = ''fulfillment_system_prompt.txt''
                                       then Some ''You assess insurance claims.'' else None),
       llm_assess := (\<lambda>sp rq e. Inr (Text amount_missing_reply)),
       fulfillment_api := (\<lambda>a. stored_answer),
       mail_api := (\<lambda>m. Response 500 None)\<rparr>"

text \<open>A world for the COMPLETED branch in which the upload returns no result: the backend
  states COMPLETED, \<^verbatim>\<open>MongoClient(...)\<close> raises so that there is never a client object, the
  fulfillment API stores the record.\<close>

definition archive_down_world :: world where
  "archive_down_world =
     quiet_world\<lparr>prompt_file := (\<lambda>name. if name = ''fulfillment_system_prompt.txt''
                                       then Some ''You assess insurance claims.'' else None),
       llm_assess := (\<lambda>sp rq e. Inr (Text completed_reply)),
       fulfillment_api := (\<lambda>a. stored_answer)\<rparr>"

definition photo_on_disk :: sys where
  "photo_on_disk =
     empty_sys\<lparr>files := {''attachments/CLAIM_0A1B2C3D/17_photo.jpg''},
               dirs := {''attachments'', ''attachments/CLAIM_0A1B2C3D''}\<rparr>"

definition pending_assessment :: assessment where
  "pending_assessment =
     \<lparr>status = ''PENDING'', missing_items = ''- Specific claim amount not provided'',
      satisfied_items = [email_item, reason_item],
      email_content = fallback_pending_body [email_item, reason_item]
                        ''- Specific claim amount not provided''\<rparr>"

definition completed_assessment :: assessment where
  "completed_assessment =
     \<lparr>status = ''COMPLETED'', missing_items = [],
      satisfied_items = [email_item, reason_item, amount_item, documents_item 1],
      email_content = []\<rparr>"

text \<open>A world in which the archive works; and a world with an archive outage: a client
  object can be made, the server cannot be reached, and every \<^verbatim>\<open>fs.put\<close> raises.\<close>

definition archive_up_world :: world where
  "archive_up_world =
     archive_down_world\<lparr>new_client := True, server_info := True,
       gridfs_put := (\<lambda>name. if name = ''CLAIM_0A1B2C3D_mail_content.json''
                                then Some ''65f0aaaa'' else Some ''65f0bbbb''),
       read_size := (\<lambda>p. Some 2048),
       mail_content_size := (\<lambda>e. 412)\<rparr>"

definition archive_outage_world :: world where
  "archive_outage_world =
     archive_down_world\<lparr>new_client := True, read_size := (\<lambda>p. Some 2048)\<rparr>"


section \<open>Vocabulary for statements about the trace\<close>

text \<open>The events one state adds to another, the sequence numbers among fetch events, and
  the events that are neither a fetch nor a write of the cursor.\<close>

definition new_events :: "sys \<Rightarrow> sys \<Rightarrow> event list" where
  "new_events s s' = drop (length (trace s)) (trace s')"

fun fetch_ids :: "event list \<Rightarrow> int list" where
  "fetch_ids [] = []"
| "fetch_ids (Fetch_Message i # evs) = i # fetch_ids evs"
| "fetch_ids (ev # evs) = fetch_ids evs"

fun is_cursor_write :: "event \<Rightarrow> bool" where
  "is_cursor_write (Cursor_Write n) = True"
| "is_cursor_write ev = False"

definition quiet :: "event \<Rightarrow> bool" where
  "quiet ev = (fetch_ids [ev] = [] \<and> \<not> is_cursor_write ev)"

text \<open>A step that only appends quiet events and leaves the tracking collection alone.\<close>

definition quiet_step :: "sys \<Rightarrow> sys \<Rightarrow> bool" where
  "quiet_step s s' =
     (take (length (trace s)) (trace s') = trace s \<and> length (trace s) \<le> length (trace s')
      \<and> list_all quiet (new_events s s') \<and> mail_tracking s' = mail_tracking s)"

text \<open>Worlds for the queue and cursor scenarios: a console fault on the first queued record;
  a mailbox of eleven messages whose newest cannot be fetched; and a state whose cursor
  stands at ten.\<close>

definition faulty_world :: world where
  "faulty_world =
     quiet_world\<lparr>body_fault := (\<lambda>e. if email_id e = ''11'' then Some Fault_On_Display else None)\<rparr>"

definition lost_mail_world :: world where
  "lost_mail_world = quiet_world\<lparr>imap_count := Some 11, imap_fetch := (\<lambda>i. Fetch_Raises)\<rparr>"

definition cursor_at_ten :: sys where
  "cursor_at_ten = empty_sys\<lparr>mail_tracking := [(10, ''2023-12-31T23:59:30'')]\<rparr>"

definition cursor_at_eleven :: sys where
  "cursor_at_eleven =
     empty_sys\<lparr>mail_tracking := [(10, ''2023-12-31T23:59:30''), (11, ''2024-01-01T00:00:00'')],
               trace := [Fetch_Message 11, Cursor_Write 11]\<rparr>"

definition bob_rejected :: sys where
  "bob_rejected =
     empty_sys\<lparr>trace := [Directory_Lookup ''bob@example.com'',
                         Mail_Post (''bob@example.com'', registration_subject,
                           minimal_registration_body ''bob@example.com'' ''CLAIM_4E5F6A7B'')]\<rparr>"


section \<open>Properties of the reply parser\<close>

lemma status_at_words: "status_at s = Some g \<Longrightarrow> g = ''COMPLETED'' \<or> g = ''PENDING''"
  by (auto simp: status_at_def Let_def split: if_splits)

lemma search_status_words: "search_status r = Some g \<Longrightarrow> g = ''COMPLETED'' \<or> g = ''PENDING''"
proof (induction r)
  case Nil
  then show ?case by simp
next
  case (Cons c cs)
  then show ?case
    by (cases "status_at (c # cs)") (auto dest: status_at_words)
qed

lemma stated_status_cases:
  "(case search_status r of Some g \<Rightarrow> g | None \<Rightarrow> ''PENDING'') = ''PENDING''
   \<or> search_status r = Some ''COMPLETED''"
  by (cases "search_status r") (auto dest: search_status_words)

text \<open>
  C1 (failsafe override). For every email record, every world and every text reply: when
  the satisfied-items list computed from the record and the reply's missing-items text has
  at least four entries, and that missing-items text is empty or is the default placeholder,
  \<open>parse_fulfillment_response\<close> returns a result, its status is COMPLETED and its missing
  items are empty, whatever status the reply states.
\<close>

theorem failsafe_override:
  assumes "length (identify_satisfied_requirements e (extract_missing_items r)) \<ge> 4"
    and "extract_missing_items r = [] \<or> extract_missing_items r = default_missing_items"
  shows "\<exists>a. parse_fulfillment_response w (Text r) e = Some a \<and> status a = ''COMPLETED''
            \<and> missing_items a = []"
proof -
  have rec: "reconcile e r = (''COMPLETED'', [], [])"
    using assms by (auto simp: reconcile_def Let_def)
  from stated_status_cases [of r] show ?thesis
  proof
    assume "(case search_status r of Some g \<Rightarrow> g | None \<Rightarrow> ''PENDING'') = ''PENDING''"
    then show ?thesis
      by (simp add: parse_fulfillment_response_def rec)
  next
    assume "search_status r = Some ''COMPLETED''"
    then show ?thesis
      by (simp add: parse_fulfillment_response_def)
  qed
qed

text \<open>The override at work: the reply states PENDING and names no missing item, the record
  has one attachment, and the result is COMPLETED.\<close>

theorem failsafe_override_witness:
  "length (identify_satisfied_requirements accident_mail (extract_missing_items pending_reply)) \<ge> 4
   \<and> extract_missing_items pending_reply = default_missing_items
   \<and> search_status pending_reply = Some ''PENDING''
   \<and> (\<exists>a. parse_fulfillment_response quiet_world (Text pending_reply) accident_mail = Some a
          \<and> status a = ''COMPLETED'' \<and> missing_items a = [])"
proof -
  have h1: "length (identify_satisfied_requirements accident_mail (extract_missing_items pending_reply)) \<ge> 4"
    by code_simp
  have h2: "extract_missing_items pending_reply = default_missing_items"
    by code_simp
  have h3: "search_status pending_reply = Some ''PENDING''"
    by code_simp
  from failsafe_override [OF h1 disjI2 [OF h2], of quiet_world] h1 h2 h3 show ?thesis
    by blast
qed

lemma amount_item_distinct:
  "amount_item \<noteq> email_item" "amount_item \<noteq> reason_item"
  "amount_item \<noteq> documents_item n" "amount_item \<noteq> some_documents_item n"
  by (simp_all add: amount_item_def email_item_def reason_item_def documents_item_def
      some_documents_item_def check_mark_def)

text \<open>
  C2 (claim-amount detection), as amended. For every email record and every missing-items
  text, the claim-amount requirement is marked satisfied exactly when no amount-related
  keyword occurs in the lower-cased missing-items text. The scan of the body for monetary
  patterns has no part in the decision: a body with a monetary pattern satisfies the
  requirement only when no such keyword occurs.
\<close>

theorem amount_decided_by_keywords:
  "amount_item \<in> set (identify_satisfied_requirements e m)
     \<longleftrightarrow> \<not> any_keyword_in amount_keywords (py_lower m)"
  by (simp add: identify_satisfied_requirements_def Let_def amount_item_distinct)

theorem amount_decided_by_keywords_witness:
  "has_monetary_value accident_mail
   \<and> \<not> any_keyword_in amount_keywords (py_lower default_missing_items)
   \<and> amount_item \<in> set (identify_satisfied_requirements accident_mail default_missing_items)"
proof -
  have h: "\<not> any_keyword_in amount_keywords (py_lower default_missing_items)"
    by code_simp
  have m: "has_monetary_value accident_mail"
    by code_simp
  from amount_decided_by_keywords [of accident_mail default_missing_items] h m show ?thesis
    by simp
qed

text \<open>The claim as stated fails: the bodies of the spec's three examples, and the body of the
  scenario message, hold a monetary pattern, yet with the backend's missing item
  ``Specific claim amount not provided'' the claim-amount requirement is not among the
  satisfied items.\<close>

theorem amount_detection_counterexample:
  "has_monetary_value accident_mail
   \<and> has_monetary_value (accident_mail\<lparr>content := ''Total: 2,500''\<rparr>)
   \<and> has_monetary_value (accident_mail\<lparr>content := ''$2500''\<rparr>)
   \<and> has_monetary_value (accident_mail\<lparr>content := ''Rs. 25,000''\<rparr>)
   \<and> extract_missing_items amount_missing_reply = ''- Specific claim amount not provided''
   \<and> identify_satisfied_requirements accident_mail ''- Specific claim amount not provided''
       = [email_item, reason_item, documents_item 1]
   \<and> amount_item \<notin> set (identify_satisfied_requirements (accident_mail\<lparr>content := ''$2500''\<rparr>)
                            ''- Specific claim amount not provided'')"
  by code_simp

text \<open>
  C10 (one-directional override), as amended. For every email record and every text reply
  whose first status marker (the leftmost match of \<^verbatim>\<open>FULFILLMENT_STATUS:\<close>, white space, and
  COMPLETED or PENDING) states COMPLETED, \<open>parse_fulfillment_response\<close> returns status
  COMPLETED with empty missing items and the four fixed satisfied items: no reconciliation
  and no failsafe run, whatever the record holds, and the status is never demoted.
\<close>

theorem stated_completed_accepted:
  "search_status r = Some ''COMPLETED'' \<Longrightarrow>
     parse_fulfillment_response w (Text r) e =
       Some \<lparr>status = ''COMPLETED'', missing_items = [],
             satisfied_items = [email_item, reason_item, amount_item,
                                documents_item (attachment_count e)],
             email_content = []\<rparr>"
  by (simp add: parse_fulfillment_response_def)

text \<open>A stated COMPLETED is accepted for a record with no attachment and no monetary
  content.\<close>

theorem stated_completed_accepted_witness:
  "search_status completed_reply = Some ''COMPLETED''
   \<and> attachment_count bare_mail = 0 \<and> \<not> has_monetary_value bare_mail
   \<and> parse_fulfillment_response quiet_world (Text completed_reply) bare_mail =
       Some \<lparr>status = ''COMPLETED'', missing_items = [],
             satisfied_items = [email_item, reason_item, amount_item, documents_item 0],
             email_content = []\<rparr>"
proof -
  have h: "search_status completed_reply = Some ''COMPLETED''"
    by code_simp
  have a: "attachment_count bare_mail = 0" "\<not> has_monetary_value bare_mail"
    by code_simp+
  from stated_completed_accepted [OF h, of quiet_world bare_mail] h a show ?thesis
    by simp
qed

text \<open>The claim as stated fails: a reply that states PENDING first and holds the marker
  \<^verbatim>\<open>FULFILLMENT_STATUS: COMPLETED\<close> further on is parsed as PENDING, with its missing item.\<close>

theorem later_completed_marker_counterexample:
  "contains two_marker_reply ''FULFILLMENT_STATUS: COMPLETED''
   \<and> search_status two_marker_reply = Some ''PENDING''
   \<and> map_option status (parse_fulfillment_response quiet_world (Text two_marker_reply) bare_mail)
       = Some ''PENDING''
   \<and> map_option missing_items (parse_fulfillment_response quiet_world (Text two_marker_reply) bare_mail)
       = Some ''- Supporting documents''"
  by code_simp

section \<open>Properties of the classifier client\<close>

lemma fallback_insurance_check_fields:
  "map_of (fallback_insurance_check e) ''is_insurance'' = Some (PBool (keyword_count e \<ge> 2))"
  "map_of (fallback_insurance_check e) ''confidence'' = Some (PInt 30)"
  "map_of (fallback_insurance_check e) ''reasoning'' =
     Some (PStr (''Fallback keyword check found '' @ str_of_int (int (keyword_count e))
                   @ '' insurance keywords''))"
  "map_of (fallback_insurance_check e) ''category'' = Some (PStr ''fallback_analysis'')"
  by (simp_all add: fallback_insurance_check_def)

lemma parse_llm_response_fallback_fields:
  "map_of (parse_llm_response_fallback t) ''is_insurance'' =
     Some (PBool (any_keyword_in [''true'', ''yes'', ''insurance'', ''claim''] (py_lower t)))"
  "map_of (parse_llm_response_fallback t) ''confidence'' = Some (PInt 50)"
  by (simp_all add: parse_llm_response_fallback_def Let_def)

text \<open>
  C5 (classifier parse-failure fallback), as amended. For every email record and every text
  response of the backend: when a \<^verbatim>\<open>{...}\<close> span is located and is not valid JSON, the
  classifier returns the keyword check over subject and body (\<^verbatim>\<open>is_insurance\<close> true exactly
  when at least two of the six keywords occur, confidence 30); when no span can be located,
  it returns the result of \<^verbatim>\<open>_parse_llm_response_fallback\<close> on the response text
  (\<^verbatim>\<open>is_insurance\<close> true exactly when the lower-cased response holds one of true, yes,
  insurance, claim; confidence 50).
\<close>

theorem parse_failure_fallbacks:
  assumes "llm_filter w e = Inr (Text t)"
  shows "(\<forall>a b. json_span t = Some (a, b) \<longrightarrow> json_loads w (slice t a b) = None \<longrightarrow>
            filter_email_with_llm w e = fallback_insurance_check e
            \<and> map_of (filter_email_with_llm w e) ''is_insurance'' = Some (PBool (keyword_count e \<ge> 2))
            \<and> map_of (filter_email_with_llm w e) ''confidence'' = Some (PInt 30))
       \<and> (json_span t = None \<longrightarrow>
            filter_email_with_llm w e = parse_llm_response_fallback t
            \<and> map_of (filter_email_with_llm w e) ''is_insurance''
                = Some (PBool (any_keyword_in [''true'', ''yes'', ''insurance'', ''claim''] (py_lower t)))
            \<and> map_of (filter_email_with_llm w e) ''confidence'' = Some (PInt 50))"
  using assms
  by (simp add: filter_email_with_llm_def fallback_insurance_check_fields
      parse_llm_response_fallback_fields)

theorem parse_failure_fallbacks_witness:
  "llm_filter broken_json_world accident_mail = Inr (Text ''{is_insurance: maybe}'')
   \<and> json_span ''{is_insurance: maybe}'' = Some (0, 21)
   \<and> json_loads broken_json_world (slice ''{is_insurance: maybe}'' 0 21) = None
   \<and> keyword_count accident_mail = 3
   \<and> map_of (filter_email_with_llm broken_json_world accident_mail) ''is_insurance'' = Some (PBool True)
   \<and> map_of (filter_email_with_llm broken_json_world accident_mail) ''confidence'' = Some (PInt 30)
   \<and> llm_filter prose_world accident_mail = Inr (Text ''This is spam.'')
   \<and> json_span ''This is spam.'' = None
   \<and> map_of (filter_email_with_llm prose_world accident_mail) ''is_insurance'' = Some (PBool False)
   \<and> map_of (filter_email_with_llm prose_world accident_mail) ''confidence'' = Some (PInt 50)"
proof -
  have a: "llm_filter broken_json_world accident_mail = Inr (Text ''{is_insurance: maybe}'')"
    by (simp add: broken_json_world_def)
  have b: "json_span ''{is_insurance: maybe}'' = Some (0, 21)"
    by code_simp
  have c: "json_loads broken_json_world (slice ''{is_insurance: maybe}'' 0 21) = None"
    by (simp add: broken_json_world_def quiet_world_def)
  have k: "keyword_count accident_mail = 3"
    by code_simp
  have p: "llm_filter prose_world accident_mail = Inr (Text ''This is spam.'')"
    by (simp add: prose_world_def)
  have q: "json_span ''This is spam.'' = None"
    by code_simp
  have r: "\<not> any_keyword_in [''true'', ''yes'', ''insurance'', ''claim''] (py_lower ''This is spam.'')"
    by code_simp
  from parse_failure_fallbacks [OF a] parse_failure_fallbacks [OF p] a b c k p q r
  show ?thesis
    by (simp add: fallback_insurance_check_fields parse_llm_response_fallback_fields)
qed

text \<open>The claim as stated fails where no span can be located: the response ``This is spam.''
  to a message with three insurance keywords is answered with confidence 50 and
  \<^verbatim>\<open>is_insurance\<close> false, while the keyword check gives confidence 30 and true.\<close>

theorem no_span_counterexample:
  "llm_filter prose_world accident_mail = Inr (Text ''This is spam.'')
   \<and> json_span ''This is spam.'' = None
   \<and> filter_email_with_llm prose_world accident_mail =
       [(''is_insurance'', PBool False), (''confidence'', PInt 50),
        (''reasoning'', PStr ''LLM response parsing failed, using fallback analysis''),
        (''category'', PStr ''unknown'')]
   \<and> fallback_insurance_check accident_mail =
       [(''is_insurance'', PBool True), (''confidence'', PInt 30),
        (''reasoning'', PStr ''Fallback keyword check found 3 insurance keywords''),
        (''category'', PStr ''fallback_analysis'')]"
  by code_simp

lemma fallback_is_insurance:
  "fallback_insurance_check e \<noteq> []"
  "truthy (dict_get (fallback_insurance_check e) ''is_insurance'' (PBool False))
     = (keyword_count e \<ge> 2)"
  by (simp_all add: fallback_insurance_check_def dict_get_def)

text \<open>
  C6 (classification fail-open). For every email record: when the backend call raises (a
  timeout is an exception), \<open>filter_email_with_llm\<close> returns the result of the keyword check,
  a dictionary with the four fields \<^verbatim>\<open>is_insurance\<close>, \<^verbatim>\<open>confidence\<close>, \<^verbatim>\<open>reasoning\<close> and
  \<^verbatim>\<open>category\<close>. The exception does not reach the ingestion loop: the turn for a fetched
  message ends normally, and the message is queued exactly when the keyword check finds at
  least two keywords.
\<close>

theorem classification_fail_open:
  assumes "llm_filter w e = Inl x"
  shows "filter_email_with_llm w e = fallback_insurance_check e
       \<and> map_of (filter_email_with_llm w e) ''is_insurance'' = Some (PBool (keyword_count e \<ge> 2))
       \<and> map_of (filter_email_with_llm w e) ''confidence'' = Some (PInt 30)
       \<and> map_of (filter_email_with_llm w e) ''reasoning'' =
           Some (PStr (''Fallback keyword check found '' @ str_of_int (int (keyword_count e))
                         @ '' insurance keywords''))
       \<and> map_of (filter_email_with_llm w e) ''category'' = Some (PStr ''fallback_analysis'')
       \<and> (\<forall>i q s n. imap_fetch w i = Fetched e \<longrightarrow>
             fst (fetch_one w i (q, s, n)) =
               (if keyword_count e \<ge> 2
                then q @ [e\<lparr>llm_filter_result := Some (fallback_insurance_check e)\<rparr>] else q))"
proof -
  have f: "filter_email_with_llm w e = fallback_insurance_check e"
    using assms by (simp add: filter_email_with_llm_def)
  show ?thesis
    by (simp add: f fallback_insurance_check_fields fetch_one_def Let_def fallback_is_insurance)
qed

theorem classification_fail_open_witness:
  "llm_filter quiet_world accident_mail = Inl Other_Exception
   \<and> filter_email_with_llm quiet_world accident_mail =
       [(''is_insurance'', PBool True), (''confidence'', PInt 30),
        (''reasoning'', PStr ''Fallback keyword check found 3 insurance keywords''),
        (''category'', PStr ''fallback_analysis'')]"
proof -
  have a: "llm_filter quiet_world accident_mail = Inl Other_Exception"
    by (simp add: quiet_world_def)
  have f: "fallback_insurance_check accident_mail =
       [(''is_insurance'', PBool True), (''confidence'', PInt 30),
        (''reasoning'', PStr ''Fallback keyword check found 3 insurance keywords''),
        (''category'', PStr ''fallback_analysis'')]"
    by code_simp
  from classification_fail_open [OF a] a f show ?thesis by simp
qed

section \<open>Properties of the fulfillment engine\<close>

lemma emit_fields [simp]:
  "trace (emit ev s) = trace s @ [ev]"
  "fulfillment_store (emit ev s) = fulfillment_store s"
  "mail_tracking (emit ev s) = mail_tracking s"
  "files (emit ev s) = files s"
  "dirs (emit ev s) = dirs s"
  "mongo_client (emit ev s) = mongo_client s"
  by (simp_all add: emit_def)

lemma assess_state:
  "fst (assess_fulfillment_with_llm w e s) = Some reply \<Longrightarrow>
     snd (assess_fulfillment_with_llm w e s) = emit (Assess_Call (claim_id e)) s"
  by (auto simp: assess_fulfillment_with_llm_def Let_def split: option.splits)

lemma persisted_accepted: "truthy (fulfillment_id_of r) \<Longrightarrow> http_ok r"
  by (auto simp: fulfillment_id_of_def http_ok_def split: http_result.splits if_splits)

lemma pending_request_status:
  "api_fulfillment_status (build_api_data e st missing None) = st"
  "api_mail_content_s3_url (build_api_data e st missing None) = None"
  "api_attachment_s3_urls (build_api_data e st missing None) = None"
  "api_s3_upload_timestamp (build_api_data e st missing None) = None"
  "api_mail_content_file_id (build_api_data e st missing None) = None"
  "api_attachment_file_ids (build_api_data e st missing None) = None"
  by (simp_all add: build_api_data_def local_api_data_def)

lemma process_pending:
  assumes "fst (assess_fulfillment_with_llm w e s) = Some reply" and "content_truthy reply"
    and "parse_fulfillment_response w reply e = Some a" and "status a = ''PENDING''"
  shows "process_email_fulfillment w e s = pend_claim w e a (emit (Assess_Call (claim_id e)) s)"
proof -
  from assms(1) assess_state [OF assms(1)]
  have "assess_fulfillment_with_llm w e s = (Some reply, emit (Assess_Call (claim_id e)) s)"
    by (metis prod.collapse)
  with assms(2-4) show ?thesis
    by (simp add: process_email_fulfillment_def)
qed

text \<open>
  C8 (PENDING branch). For every email record whose assessment is obtained and parsed with
  terminal status PENDING: the engine first posts a fulfillment record with status pending
  and, only when that post returned an id, then posts the customer notification; the value
  it returns is true exactly when the record was persisted and the notification was
  accepted. When the notification fails after the record was persisted, the result is false
  and the store still holds the record, with status pending: nothing else is sent to the
  store, and no local file is touched.
\<close>

theorem pending_branch:
  assumes "fst (assess_fulfillment_with_llm w e s) = Some reply" and "content_truthy reply"
    and "parse_fulfillment_response w reply e = Some a" and "status a = ''PENDING''"
  shows "let request = build_api_data e ''pending'' (missing_items a) None;
             persisted = truthy (fulfillment_id_of (fulfillment_api w request));
             notice = (sender_email e, pending_subject, email_content a);
             dispatched = http_ok (mail_api w notice);
             result = fst (process_email_fulfillment w e s);
             s' = snd (process_email_fulfillment w e s)
         in api_fulfillment_status request = ''pending''
          \<and> trace s' = trace s @ [Assess_Call (claim_id e), Store_Post request]
                          @ (if persisted then [Mail_Post notice] else [])
          \<and> (truthy result \<longleftrightarrow> persisted \<and> dispatched)
          \<and> fulfillment_store s' = fulfillment_store s
                @ (if http_ok (fulfillment_api w request) then [request] else [])
          \<and> (persisted \<and> \<not> dispatched \<longrightarrow>
                \<not> truthy result \<and> fulfillment_store s' = fulfillment_store s @ [request])
          \<and> files s' = files s \<and> dirs s' = dirs s"
  using persisted_accepted [of "fulfillment_api w (build_api_data e ''pending'' (missing_items a) None)"]
  by (auto simp: process_pending [OF assms] pend_claim_def save_to_fulfillment_table_def
      send_mail_via_service_def Let_def pending_request_status)


theorem pending_branch_witness:
  "fst (assess_fulfillment_with_llm pending_world bare_mail empty_sys) = Some (Text amount_missing_reply)
   \<and> content_truthy (Text amount_missing_reply)
   \<and> parse_fulfillment_response pending_world (Text amount_missing_reply) bare_mail
       = Some pending_assessment
   \<and> status pending_assessment = ''PENDING''
   \<and> truthy (fulfillment_id_of (fulfillment_api pending_world
               (build_api_data bare_mail ''pending'' (missing_items pending_assessment) None)))
   \<and> \<not> http_ok (mail_api pending_world
               (sender_email bare_mail, pending_subject, email_content pending_assessment))
   \<and> \<not> truthy (fst (process_email_fulfillment pending_world bare_mail empty_sys))
   \<and> fulfillment_store (snd (process_email_fulfillment pending_world bare_mail empty_sys))
       = [build_api_data bare_mail ''pending'' (missing_items pending_assessment) None]
   \<and> api_fulfillment_status (build_api_data bare_mail ''pending'' (missing_items pending_assessment) None)
       = ''pending''
   \<and> trace (snd (process_email_fulfillment pending_world bare_mail empty_sys))
       = [Assess_Call (claim_id bare_mail),
          Store_Post (build_api_data bare_mail ''pending'' (missing_items pending_assessment) None),
          Mail_Post (sender_email bare_mail, pending_subject, email_content pending_assessment)]"
proof -
  have h1: "fst (assess_fulfillment_with_llm pending_world bare_mail empty_sys)
              = Some (Text amount_missing_reply)"
    by code_simp
  have h2: "content_truthy (Text amount_missing_reply)"
    by code_simp
  have h3: "parse_fulfillment_response pending_world (Text amount_missing_reply) bare_mail
              = Some pending_assessment"
    by code_simp
  have h4: "status pending_assessment = ''PENDING''"
    by (simp add: pending_assessment_def)
  have p: "truthy (fulfillment_id_of (fulfillment_api pending_world
               (build_api_data bare_mail ''pending'' (missing_items pending_assessment) None)))"
    by (simp add: pending_world_def stored_answer_def fulfillment_id_of_def dict_get_def)
  have d: "\<not> http_ok (mail_api pending_world
               (sender_email bare_mail, pending_subject, email_content pending_assessment))"
    by (simp add: pending_world_def http_ok_def)
  have k: "http_ok (fulfillment_api pending_world
               (build_api_data bare_mail ''pending'' (missing_items pending_assessment) None))"
    by (simp add: pending_world_def stored_answer_def http_ok_def)
  have t: "trace empty_sys = []" "fulfillment_store empty_sys = []"
    by (simp_all add: empty_sys_def)
  from pending_branch [OF h1 h2 h3 h4, unfolded Let_def] h1 h2 h3 h4 p d k t show ?thesis
    by auto
qed

lemma process_completed:
  assumes "fst (assess_fulfillment_with_llm w e s) = Some reply" and "content_truthy reply"
    and "parse_fulfillment_response w reply e = Some a" and "status a = ''COMPLETED''"
  shows "process_email_fulfillment w e s = complete_claim w e (emit (Assess_Call (claim_id e)) s)"
proof -
  from assms(1) assess_state [OF assms(1)]
  have "assess_fulfillment_with_llm w e s = (Some reply, emit (Assess_Call (claim_id e)) s)"
    by (metis prod.collapse)
  with assms(2-4) show ?thesis
    by (simp add: process_email_fulfillment_def)
qed

lemma connect_fields [simp]:
  "fulfillment_store (snd (connect w s)) = fulfillment_store s"
  "mail_tracking (snd (connect w s)) = mail_tracking s"
  "files (snd (connect w s)) = files s"
  "dirs (snd (connect w s)) = dirs s"
  "trace (snd (connect w s)) = trace s"
  "mongo_client (snd (connect w s)) = (mongo_client s \<or> new_client w)"
  by (simp_all add: connect_def)

lemma upload_none_iff:
  "fst (upload_to_mongodb_for_completed_fulfillment w e s) = None
     \<longleftrightarrow> \<not> mongo_client s \<and> \<not> (new_client w \<and> server_info w)"
  by (simp add: upload_to_mongodb_for_completed_fulfillment_def upload_complete_email_def
      connect_def)

lemma complete_without_archive:
  assumes "fst (upload_to_mongodb_for_completed_fulfillment w e s) = None"
  shows "complete_claim w e s
           = save_to_fulfillment_table w e ''completed'' [] None (snd (connect w s))"
proof -
  from assms have "\<not> mongo_client s \<and> \<not> (new_client w \<and> server_info w)"
    using upload_none_iff [of w e s] by blast
  then show ?thesis
    by (auto simp add: complete_claim_def upload_to_mongodb_for_completed_fulfillment_def
        connect_def)
qed

text \<open>The path on which the upload returns no result does what the claim says: one record
  with status completed and no archive reference is posted, and no local file is touched.\<close>

lemma no_archive_result_degrades:
  assumes "fst (assess_fulfillment_with_llm w e s) = Some reply" and "content_truthy reply"
    and "parse_fulfillment_response w reply e = Some a" and "status a = ''COMPLETED''"
    and "fst (upload_to_mongodb_for_completed_fulfillment w e
                (emit (Assess_Call (claim_id e)) s)) = None"
  shows "let request = build_api_data e ''completed'' [] None;
             result = fst (process_email_fulfillment w e s);
             s' = snd (process_email_fulfillment w e s)
         in result = fulfillment_id_of (fulfillment_api w request)
          \<and> api_fulfillment_status request = ''completed''
          \<and> api_mail_content_s3_url request = None \<and> api_attachment_s3_urls request = None
          \<and> api_mail_content_file_id request = None \<and> api_attachment_file_ids request = None
          \<and> api_s3_upload_timestamp request = None
          \<and> trace s' = trace s @ [Assess_Call (claim_id e), Store_Post request]
          \<and> fulfillment_store s' = fulfillment_store s
                @ (if http_ok (fulfillment_api w request) then [request] else [])
          \<and> files s' = files s \<and> dirs s' = dirs s"
  by (simp add: process_completed [OF assms(1-4)] complete_without_archive [OF assms(5)]
      save_to_fulfillment_table_def Let_def pending_request_status)

lemma archive_down_reply:
  "fst (assess_fulfillment_with_llm archive_down_world accident_mail photo_on_disk)
     = Some (Text completed_reply)"
  "content_truthy (Text completed_reply)"
  "parse_fulfillment_response archive_down_world (Text completed_reply) accident_mail
     = Some completed_assessment"
  "status completed_assessment = ''COMPLETED''"
  by code_simp+

lemma no_archive_result_example:
  "fst (upload_to_mongodb_for_completed_fulfillment archive_down_world accident_mail photo_on_disk)
     = None
   \<and> fst (process_email_fulfillment archive_down_world accident_mail photo_on_disk)
       = PStr ''65f0c0ffee65f0c0ffee65f0''
   \<and> map api_attachment_file_ids
         (fulfillment_store (snd (process_email_fulfillment archive_down_world accident_mail photo_on_disk)))
       = [None]
   \<and> files (snd (process_email_fulfillment archive_down_world accident_mail photo_on_disk))
       = {''attachments/CLAIM_0A1B2C3D/17_photo.jpg''}
   \<and> dirs (snd (process_email_fulfillment archive_down_world accident_mail photo_on_disk))
       = {''attachments'', ''attachments/CLAIM_0A1B2C3D''}"
  unfolding process_completed [OF archive_down_reply]
  by code_simp

text \<open>The path on which the archive succeeds: the record carries the archive references, the
  attachment is removed and the emptied claim folder with it.\<close>

lemma archive_up_reply:
  "fst (assess_fulfillment_with_llm archive_up_world accident_mail photo_on_disk)
     = Some (Text completed_reply)"
  "content_truthy (Text completed_reply)"
  "parse_fulfillment_response archive_up_world (Text completed_reply) accident_mail
     = Some completed_assessment"
  "status completed_assessment = ''COMPLETED''"
  by code_simp+

lemma archive_success_cleans_up:
  "fst (process_email_fulfillment archive_up_world accident_mail photo_on_disk)
     = PStr ''65f0c0ffee65f0c0ffee65f0''
   \<and> map api_attachment_file_ids
         (fulfillment_store (snd (process_email_fulfillment archive_up_world accident_mail photo_on_disk)))
       = [Some [''65f0bbbb'']]
   \<and> files (snd (process_email_fulfillment archive_up_world accident_mail photo_on_disk)) = {}
   \<and> dirs (snd (process_email_fulfillment archive_up_world accident_mail photo_on_disk))
       = {''attachments''}"
  unfolding process_completed [OF archive_up_reply]
  by code_simp

text \<open>After a \<^verbatim>\<open>connect()\<close> that made a client object, whether or not the server answered,
  the upload never returns \<^verbatim>\<open>None\<close>; when every \<^verbatim>\<open>fs.put\<close> raises, its result is the
  summary of an upload that stored nothing.\<close>

lemma failed_connect_leaves_client:
  "new_client w \<Longrightarrow> mongo_client (module_loaded w s)"
  by (simp add: module_loaded_def)

lemma map_filter_none: "(\<And>x. f x = None) \<Longrightarrow> List.map_filter f xs = []"
  by (simp add: List.map_filter_def)

lemma outage_result:
  assumes "mongo_client s" and "\<And>name. gridfs_put w name = None"
  shows "fst (upload_to_mongodb_for_completed_fulfillment w e s) =
           Some \<lparr>mr_mail_content = None, mr_attachments = [], mr_upload_timestamp = now w\<rparr>"
proof -
  have "List.map_filter
          (\<lambda>p. if p \<in> files s \<union> dirs s
                then upload_attachment w s (sender_email e) (claim_id e) p else None)
          (attachment_paths e) = []"
    by (rule map_filter_none) (simp add: upload_attachment_def assms(2) split: option.splits)
  then show ?thesis
    using assms
    by (simp add: upload_to_mongodb_for_completed_fulfillment_def upload_complete_email_def
        upload_mail_content_def)
qed

lemma archive_outage_reply:
  "fst (assess_fulfillment_with_llm archive_outage_world accident_mail
          (module_loaded archive_outage_world photo_on_disk))
     = Some (Text completed_reply)"
  "content_truthy (Text completed_reply)"
  "parse_fulfillment_response archive_outage_world (Text completed_reply) accident_mail
     = Some completed_assessment"
  "status completed_assessment = ''COMPLETED''"
  by code_simp+

text \<open>
  C9 (archive-failure degradation). The claim: for a record with terminal status COMPLETED
  whose archive upload fails, a fulfillment record is still persisted with status completed
  and without archive references, and the local attachment files and the claim folder are
  not deleted. The code does so only when the upload returns \<^verbatim>\<open>None\<close>, which needs a
  missing client object and a failing \<^verbatim>\<open>connect()\<close>. The module connects when it is loaded,
  and \<^verbatim>\<open>connect()\<close> keeps the client object it has made even when the server does not
  answer. At an archive outage (the server does not answer, every \<^verbatim>\<open>fs.put\<close> raises)
  \<^verbatim>\<open>upload_complete_email\<close> therefore runs and returns its summary, the engine takes it for
  a success, posts a completed record with an empty list of file ids and attachment count 0,
  and deletes the attachment and the claim folder, the only copy left.
\<close>

theorem archive_outage_deletes_local_copy:
  "new_client archive_outage_world \<and> \<not> server_info archive_outage_world
   \<and> gridfs_put archive_outage_world ''CLAIM_0A1B2C3D_mail_content.json'' = None
   \<and> gridfs_put archive_outage_world ''17_photo.jpg'' = None
   \<and> mongo_client (module_loaded archive_outage_world photo_on_disk)
   \<and> files (module_loaded archive_outage_world photo_on_disk)
       = {''attachments/CLAIM_0A1B2C3D/17_photo.jpg''}
   \<and> map_option status
         (parse_fulfillment_response archive_outage_world (Text completed_reply) accident_mail)
       = Some ''COMPLETED''
   \<and> fst (upload_to_mongodb_for_completed_fulfillment archive_outage_world accident_mail
            (module_loaded archive_outage_world photo_on_disk))
       = Some \<lparr>mr_mail_content = None, mr_attachments = [],
               mr_upload_timestamp = ''2024-01-01T00:00:00''\<rparr>
   \<and> fst (process_email_fulfillment archive_outage_world accident_mail
            (module_loaded archive_outage_world photo_on_disk))
       = PStr ''65f0c0ffee65f0c0ffee65f0''
   \<and> map api_fulfillment_status
         (fulfillment_store (snd (process_email_fulfillment archive_outage_world accident_mail
            (module_loaded archive_outage_world photo_on_disk))))
       = [''completed'']
   \<and> map api_mail_content_file_id
         (fulfillment_store (snd (process_email_fulfillment archive_outage_world accident_mail
            (module_loaded archive_outage_world photo_on_disk))))
       = [Some None]
   \<and> map api_attachment_file_ids
         (fulfillment_store (snd (process_email_fulfillment archive_outage_world accident_mail
            (module_loaded archive_outage_world photo_on_disk))))
       = [Some []]
   \<and> map api_attachment_count
         (fulfillment_store (snd (process_email_fulfillment archive_outage_world accident_mail
            (module_loaded archive_outage_world photo_on_disk))))
       = [0]
   \<and> files (snd (process_email_fulfillment archive_outage_world accident_mail
            (module_loaded archive_outage_world photo_on_disk))) = {}
   \<and> dirs (snd (process_email_fulfillment archive_outage_world accident_mail
            (module_loaded archive_outage_world photo_on_disk)))
       = {''attachments''}"
  unfolding process_completed [OF archive_outage_reply]
  by code_simp

section \<open>Properties of the queue processor\<close>






section \<open>Quiet steps\<close>

lemma quiet_step_iff:
  "quiet_step s s' \<longleftrightarrow>
     (\<exists>F. trace s' = trace s @ F \<and> list_all quiet F) \<and> mail_tracking s' = mail_tracking s"
proof
  assume q: "quiet_step s s'"
  then have "trace s' = trace s @ new_events s s'"
    unfolding quiet_step_def new_events_def
    by (metis append_take_drop_id)
  with q show "(\<exists>F. trace s' = trace s @ F \<and> list_all quiet F) \<and> mail_tracking s' = mail_tracking s"
    unfolding quiet_step_def by blast
next
  assume "(\<exists>F. trace s' = trace s @ F \<and> list_all quiet F) \<and> mail_tracking s' = mail_tracking s"
  then show "quiet_step s s'"
    by (auto simp: quiet_step_def new_events_def)
qed

lemma quiet_step_refl [simp]: "quiet_step s s"
  by (simp add: quiet_step_iff)

lemma quiet_step_trans: "quiet_step s s1 \<Longrightarrow> quiet_step s1 s2 \<Longrightarrow> quiet_step s s2"
  unfolding quiet_step_iff by auto

lemma quiet_step_emit: "quiet ev \<Longrightarrow> quiet_step s s1 \<Longrightarrow> quiet_step s (emit ev s1)"
  unfolding quiet_step_iff by auto

lemma quiet_events [simp]:
  "quiet (Classify_Call c)" "quiet (Directory_Lookup a)" "quiet (Mail_Post m)"
  "quiet (Assess_Call c)" "quiet (Archive_Upload c)" "quiet (Store_Post r)"
  "quiet (Remove_File p)" "quiet (Remove_Dir p)"
  "\<not> quiet (Fetch_Message i)" "\<not> quiet (Cursor_Write n)"
  by (simp_all add: quiet_def)

lemma quiet_step_updates [simp]:
  "quiet_step s (s1\<lparr>fulfillment_store := X\<rparr>) = quiet_step s s1"
  "quiet_step s (s1\<lparr>files := Y\<rparr>) = quiet_step s s1"
  "quiet_step s (s1\<lparr>dirs := Z\<rparr>) = quiet_step s s1"
  "quiet_step s (s1\<lparr>mongo_client := b\<rparr>) = quiet_step s s1"
  by (simp_all add: quiet_step_def new_events_def)

lemma quiet_remove_path: "quiet_step s s1 \<Longrightarrow> quiet_step s (remove_path w p s1)"
  by (simp add: remove_path_def quiet_step_emit)

lemma quiet_remove_attachments: "quiet_step s s1 \<Longrightarrow> quiet_step s (remove_attachments w ps s1)"
  by (induction ps arbitrary: s1) (auto intro: quiet_remove_path)

lemma quiet_remove_claim_folder: "quiet_step s s1 \<Longrightarrow> quiet_step s (remove_claim_folder w ps s1)"
  by (simp add: remove_claim_folder_def Let_def quiet_step_emit split: list.splits)

lemma quiet_cleanup:
  "quiet_step s s1 \<Longrightarrow> quiet_step s (cleanup_local_files_after_mongodb_upload w e s1)"
  by (simp add: cleanup_local_files_after_mongodb_upload_def quiet_remove_claim_folder
      quiet_remove_attachments)

lemma quiet_save:
  "quiet_step s s1 \<Longrightarrow> quiet_step s (snd (save_to_fulfillment_table w e st m r s1))"
  by (simp add: save_to_fulfillment_table_def Let_def quiet_step_emit)

lemma quiet_send_mail:
  "quiet_step s s1 \<Longrightarrow> quiet_step s (snd (send_mail_via_service w a b c s1))"
  by (simp add: send_mail_via_service_def quiet_step_emit)

lemma quiet_upload:
  "quiet_step s s1 \<Longrightarrow> quiet_step s (snd (upload_to_mongodb_for_completed_fulfillment w e s1))"
  by (simp add: upload_to_mongodb_for_completed_fulfillment_def connect_def quiet_step_emit)

lemma quiet_assess:
  "quiet_step s s1 \<Longrightarrow> quiet_step s (snd (assess_fulfillment_with_llm w e s1))"
  by (auto simp: assess_fulfillment_with_llm_def Let_def quiet_step_emit split: option.splits)

lemma quiet_complete_claim:
  assumes "quiet_step s s1"
  shows "quiet_step s (snd (complete_claim w e s1))"
proof (cases "upload_to_mongodb_for_completed_fulfillment w e s1")
  case (Pair r s2)
  with quiet_upload [OF assms, of w e] have q2: "quiet_step s s2"
    by simp
  show ?thesis
  proof (cases r)
    case None
    with Pair q2 show ?thesis
      by (simp add: complete_claim_def quiet_save)
  next
    case (Some m)
    obtain v s3 where sv: "save_to_fulfillment_table w e ''completed'' [] (Some m) s2 = (v, s3)"
      by (cases "save_to_fulfillment_table w e ''completed'' [] (Some m) s2")
    with quiet_save [OF q2, of w e "''completed''" "[]" "Some m"] have "quiet_step s s3"
      by simp
    with Pair Some sv show ?thesis
      by (simp add: complete_claim_def quiet_cleanup)
  qed
qed

lemma quiet_pend_claim:
  assumes "quiet_step s s1"
  shows "quiet_step s (snd (pend_claim w e a s1))"
proof -
  obtain v s2 where sv: "save_to_fulfillment_table w e ''pending'' (missing_items a) None s1 = (v, s2)"
    by (cases "save_to_fulfillment_table w e ''pending'' (missing_items a) None s1")
  with quiet_save [OF assms, of w e "''pending''" "missing_items a" None] have q2: "quiet_step s s2"
    by simp
  obtain b s3 where sm:
    "send_mail_via_service w (sender_email e) pending_subject (email_content a) s2 = (b, s3)"
    by (cases "send_mail_via_service w (sender_email e) pending_subject (email_content a) s2")
  with quiet_send_mail [OF q2, of w "sender_email e" pending_subject "email_content a"]
  have "quiet_step s s3"
    by simp
  with sv sm q2 show ?thesis
    by (simp add: pend_claim_def)
qed

lemma quiet_process_email_fulfillment:
  assumes "quiet_step s s1"
  shows "quiet_step s (snd (process_email_fulfillment w e s1))"
proof -
  obtain r s2 where a: "assess_fulfillment_with_llm w e s1 = (r, s2)"
    by (cases "assess_fulfillment_with_llm w e s1")
  with quiet_assess [OF assms, of w e] have q2: "quiet_step s s2"
    by simp
  from a q2 show ?thesis
    by (auto simp: process_email_fulfillment_def quiet_complete_claim quiet_pend_claim
        split: option.splits)
qed

lemma quiet_send_unregistered:
  "quiet_step s s1 \<Longrightarrow> quiet_step s (snd (send_unregistered_user_email_via_service w a c s1))"
  by (auto simp: send_unregistered_user_email_via_service_def quiet_step_emit
      split: sum.splits prod.splits)

lemma quiet_process_queued_email:
  assumes "quiet_step s s1"
  shows "quiet_step s (fst (process_queued_email w e s1))"
proof -
  have q2: "quiet_step s (emit (Directory_Lookup (sender_email e)) s1)"
    using assms by (simp add: quiet_step_emit)
  from assms q2
    quiet_send_unregistered [OF q2, of w "sender_email e" "claim_id e"]
    quiet_process_email_fulfillment [OF q2, of w e]
  show ?thesis
    by (auto simp: process_queued_email_def check_user_registration_def split: prod.splits)
qed

lemma quiet_drain: "quiet_step s s1 \<Longrightarrow> quiet_step s (fst (snd (drain w q s1 n)))"
proof (induction q arbitrary: s1 n)
  case Nil
  then show ?case by simp
next
  case (Cons e q)
  from quiet_process_queued_email [OF Cons.prems, of w e] Cons.IH
  show ?case
    by (auto split: prod.splits sum.splits)
qed


section \<open>The drain stops at a fault\<close>

lemma process_fault:
  "body_fault w e = Some f \<Longrightarrow> snd (process_queued_email w e s) = Inl Other_Exception"
  by (cases f) (auto simp: process_queued_email_def split: prod.splits)

lemma process_no_fault:
  "body_fault w e = None \<Longrightarrow> \<exists>k. snd (process_queued_email w e s) = Inr k"
  by (auto simp: process_queued_email_def split: prod.splits)

lemma drain_fault:
  "body_fault w e = Some f \<Longrightarrow> drain w (e # rest) s n = (rest, fst (process_queued_email w e s), n)"
  using process_fault [of w e f s]
  by (cases "process_queued_email w e s") simp

lemma drain_no_fault:
  "list_all (\<lambda>r. body_fault w r = None) before \<Longrightarrow>
     fst (drain w before s n) = []
     \<and> drain w (before @ rest) s n =
         drain w rest (fst (snd (drain w before s n))) (snd (snd (drain w before s n)))"
proof (induction before arbitrary: s n)
  case Nil
  then show ?case by simp
next
  case (Cons r before)
  from Cons.prems have nf: "body_fault w r = None" and rest: "list_all (\<lambda>r. body_fault w r = None) before"
    by simp_all
  from process_no_fault [OF nf, of s] obtain k where k: "snd (process_queued_email w r s) = Inr k"
    by blast
  obtain s1 where s1: "process_queued_email w r s = (s1, Inr k)"
    using k by (cases "process_queued_email w r s") simp
  from Cons.IH [OF rest, of s1 "n + k"] s1 show ?case
    by simp
qed

text \<open>
  C3 (queue-processor fault isolation), as amended. An exception raised while one record is
  processed is caught and does not leave \<open>process_email_queue\<close>; the loop then stops. The
  records ahead of the faulting one have been dequeued and handled (a queue without a fault
  is drained to empty), the faulting record has been dequeued and what it did before the
  fault stays done, and every record behind it stays in the queue, in order, untouched in
  this drain cycle.
\<close>

theorem fault_stops_the_drain:
  assumes "list_all (\<lambda>r. body_fault w r = None) before" and "body_fault w e = Some f"
  shows "fst (process_email_queue w (before, s)) = []
       \<and> process_email_queue w (before @ e # rest, s) =
           (rest,
            fst (process_queued_email w e (fst (snd (process_email_queue w (before, s))))),
            snd (snd (process_email_queue w (before, s))))"
  using drain_no_fault [OF assms(1), of s 0 "e # rest"] drain_fault [OF assms(2)]
  by (simp add: process_email_queue_def)

theorem fault_stops_the_drain_witness:
  "list_all (\<lambda>r. body_fault faulty_world r = None) [bare_mail]
   \<and> body_fault faulty_world accident_mail = Some Fault_On_Display
   \<and> process_email_queue faulty_world ([bare_mail], empty_sys) = ([], bob_rejected, 0)
   \<and> process_email_queue faulty_world ([bare_mail] @ accident_mail # [bare_mail], empty_sys)
       = ([bare_mail], bob_rejected, 0)"
proof -
  have h1: "list_all (\<lambda>r. body_fault faulty_world r = None) [bare_mail]"
    by (simp add: faulty_world_def bare_mail_def)
  have h2: "body_fault faulty_world accident_mail = Some Fault_On_Display"
    by (simp add: faulty_world_def accident_mail_def)
  have a: "process_email_queue faulty_world ([bare_mail], empty_sys) = ([], bob_rejected, 0)"
    by code_simp
  have b: "fst (process_queued_email faulty_world accident_mail bob_rejected) = bob_rejected"
    by (simp add: process_queued_email_def h2)
  from fault_stops_the_drain [OF h1 h2, of empty_sys "[bare_mail]"] h1 h2 a b show ?thesis
    by simp
qed

text \<open>The claim as stated fails: with a fault on the first of two queued records, the call
  returns, the second record is still in the queue, and no call at all was made for it.\<close>

theorem fault_isolation_counterexample:
  "body_fault faulty_world accident_mail = Some Fault_On_Display
   \<and> body_fault faulty_world bare_mail = None
   \<and> process_email_queue faulty_world ([accident_mail, bare_mail], empty_sys)
       = ([bare_mail], empty_sys, 0)"
  by code_simp

section \<open>The cursor is written after the fetch batch, whatever its outcome\<close>

lemma fetch_ids_append: "fetch_ids (xs @ ys) = fetch_ids xs @ fetch_ids ys"
  by (induction xs rule: fetch_ids.induct) simp_all

lemma quiet_list:
  "list_all quiet F \<Longrightarrow> fetch_ids F = [] \<and> list_all (\<lambda>ev. \<not> is_cursor_write ev) F"
proof (induction F)
  case Nil
  then show ?case by simp
next
  case (Cons ev F)
  then show ?case
    by (cases ev) (simp_all add: quiet_def)
qed

lemma quiet_save_attachments: "quiet_step s s1 \<Longrightarrow> quiet_step s (save_attachments w e s1)"
  by (simp add: save_attachments_def)

lemma fetch_one_quiet:
  "quiet_step (emit (Fetch_Message i) s) (fst (snd (fetch_one w i (q, s, n))))"
  by (auto simp: fetch_one_def Let_def quiet_step_emit quiet_save_attachments
      quiet_remove_claim_folder quiet_remove_attachments split: fetch_outcome.splits)

lemma fold_fetch:
  "\<exists>F. trace (fst (snd (fold (fetch_one w) ids (q, s, n)))) = trace s @ F
       \<and> fetch_ids F = ids \<and> list_all (\<lambda>ev. \<not> is_cursor_write ev) F
       \<and> mail_tracking (fst (snd (fold (fetch_one w) ids (q, s, n)))) = mail_tracking s"
proof (induction ids arbitrary: q s n)
  case Nil
  then show ?case by simp
next
  case (Cons i ids)
  obtain q1 s1 n1 where f: "fetch_one w i (q, s, n) = (q1, s1, n1)"
    by (cases "fetch_one w i (q, s, n)")
  with fetch_one_quiet [of i s w q n] have "quiet_step (emit (Fetch_Message i) s) s1"
    by simp
  then obtain F1 where F1: "trace s1 = trace s @ Fetch_Message i # F1" "list_all quiet F1"
    and m1: "mail_tracking s1 = mail_tracking s"
    by (auto simp: quiet_step_iff)
  from Cons.IH [of q1 s1 n1] obtain F2 where
    F2: "trace (fst (snd (fold (fetch_one w) ids (q1, s1, n1)))) = trace s1 @ F2"
      "fetch_ids F2 = ids" "list_all (\<lambda>ev. \<not> is_cursor_write ev) F2"
    and m2: "mail_tracking (fst (snd (fold (fetch_one w) ids (q1, s1, n1)))) = mail_tracking s1"
    by blast
  from F1 F2 m1 m2 quiet_list [OF F1(2)] f show ?case
    by (intro exI [of _ "Fetch_Message i # F1 @ F2"]) (simp add: fetch_ids_append)
qed

lemma drain_events:
  "\<exists>P. trace (fst (snd (drain w q s n))) = trace s @ P \<and> fetch_ids P = []
       \<and> list_all (\<lambda>ev. \<not> is_cursor_write ev) P
       \<and> mail_tracking (fst (snd (drain w q s n))) = mail_tracking s"
  using quiet_drain [of s s w q n] quiet_list
  by (auto simp: quiet_step_iff)

text \<open>
  C4 (cursor update after fetch), as amended. In every poll cycle with new mail (a stored
  cursor exists and the current count is greater), the new count is written once, after
  \<open>fetch_new_mails_to_queue\<close> has attempted every sequence number from the stored count plus
  one to the current count, in ascending order, and before any queued record is processed.
  It is written whether or not the fetches succeeded: the tracking collection receives the
  current count whenever the write itself succeeds, so a message whose fetch fails lies
  behind the cursor and is not fetched again.
\<close>

theorem cursor_written_after_fetch:
  assumes "get_stored_mail_details w s = (stored, Some t)"
    and "stored < get_current_mail_count w"
  shows "let current = get_current_mail_count w;
             s1 = fst (snd (fetch_new_mails_to_queue w stored current (q, s)));
             s' = snd (monitor_cycle w (q, s))
         in (\<exists>F P. trace s1 = trace s @ F \<and> fetch_ids F = [stored + 1 .. current]
                  \<and> list_all (\<lambda>ev. \<not> is_cursor_write ev) F
                  \<and> trace s' = trace s1 @ Cursor_Write current # P
                  \<and> fetch_ids P = [] \<and> list_all (\<lambda>ev. \<not> is_cursor_write ev) P)
          \<and> mail_tracking s' = mail_tracking s
                @ (if tracking_write w then [(current, now w)] else [])"
proof -
  define current where "current = get_current_mail_count w"
  obtain q1 s1 added where f: "fetch_new_mails_to_queue w stored current (q, s) = (q1, s1, added)"
    by (cases "fetch_new_mails_to_queue w stored current (q, s)")
  define s2 where "s2 = snd (update_mail_details w current s1)"
  from fold_fetch [of w "[stored + 1 .. current]" q s 0] f obtain F where
    F: "trace s1 = trace s @ F" "fetch_ids F = [stored + 1 .. current]"
      "list_all (\<lambda>ev. \<not> is_cursor_write ev) F"
    and m1: "mail_tracking s1 = mail_tracking s"
    by (auto simp: fetch_new_mails_to_queue_def)
  have t2: "trace s2 = trace s1 @ [Cursor_Write current]"
    and m2: "mail_tracking s2 = mail_tracking s1 @ (if tracking_write w then [(current, now w)] else [])"
    by (simp_all add: s2_def update_mail_details_def Let_def)
  define s' where "s' = snd (monitor_cycle w (q, s))"
  have s': "s' = (if added > 0 then fst (snd (drain w q1 s2 0)) else s2)"
    using assms f
    by (simp add: s'_def monitor_cycle_def current_def [symmetric] Let_def s2_def
        process_email_queue_def split: prod.splits)
  from drain_events [of w q1 s2 0] obtain P where
    P: "trace (fst (snd (drain w q1 s2 0))) = trace s2 @ P" "fetch_ids P = []"
      "list_all (\<lambda>ev. \<not> is_cursor_write ev) P"
    and m3: "mail_tracking (fst (snd (drain w q1 s2 0))) = mail_tracking s2"
    by blast
  have "\<exists>P. trace s' = trace s1 @ Cursor_Write current # P \<and> fetch_ids P = []
            \<and> list_all (\<lambda>ev. \<not> is_cursor_write ev) P"
  proof (cases "added > 0")
    case True
    with s' P t2 show ?thesis by auto
  next
    case False
    with s' t2 show ?thesis by auto
  qed
  moreover have "mail_tracking s' = mail_tracking s
      @ (if tracking_write w then [(current, now w)] else [])"
    using s' m1 m2 m3 by (cases "added > 0") simp_all
  ultimately show ?thesis
    using F f by (auto simp: Let_def current_def [symmetric] s'_def [symmetric])
qed

theorem cursor_written_after_fetch_witness:
  "get_stored_mail_details lost_mail_world cursor_at_ten = (10, Some ''2023-12-31T23:59:30'')
   \<and> 10 < get_current_mail_count lost_mail_world
   \<and> imap_fetch lost_mail_world 11 = Fetch_Raises
   \<and> mail_tracking (snd (monitor_cycle lost_mail_world ([], cursor_at_ten)))
       = [(10, ''2023-12-31T23:59:30''), (11, ''2024-01-01T00:00:00'')]"
proof -
  have h1: "get_stored_mail_details lost_mail_world cursor_at_ten = (10, Some ''2023-12-31T23:59:30'')"
    by code_simp
  have h2: "10 < get_current_mail_count lost_mail_world"
    by code_simp
  have c: "get_current_mail_count lost_mail_world = 11" "tracking_write lost_mail_world"
    "now lost_mail_world = ''2024-01-01T00:00:00''"
    "mail_tracking cursor_at_ten = [(10, ''2023-12-31T23:59:30'')]"
    "imap_fetch lost_mail_world 11 = Fetch_Raises"
    by (simp_all add: get_current_mail_count_def lost_mail_world_def quiet_world_def
        cursor_at_ten_def empty_sys_def)
  from cursor_written_after_fetch [OF h1 h2, of "[]", unfolded Let_def] h1 h2 c show ?thesis
    by simp
qed

text \<open>The claim as stated fails: the cursor stands at ten, the mailbox holds eleven messages
  and the fetch of message eleven raises. The cycle queues nothing and writes the cursor
  eleven; the next cycle finds no new mail, so message eleven is skipped.\<close>

theorem cursor_advance_counterexample:
  "get_stored_mail_details lost_mail_world cursor_at_ten = (10, Some ''2023-12-31T23:59:30'')
   \<and> get_current_mail_count lost_mail_world = 11
   \<and> imap_fetch lost_mail_world 11 = Fetch_Raises
   \<and> monitor_cycle lost_mail_world ([], cursor_at_ten) = ([], cursor_at_eleven)
   \<and> get_stored_mail_details lost_mail_world cursor_at_eleven = (11, Some ''2024-01-01T00:00:00'')
   \<and> monitor_cycle lost_mail_world ([], cursor_at_eleven) = ([], cursor_at_eleven)"
  by code_simp


end
